theory Spec2Isabelle
  imports Main
begin

section \<open>The store of \<^verbatim>\<open>ds-model-store.ts\<close>\<close>

text \<open>
  The class \<^verbatim>\<open>Store\<close> keeps three per-instance caches (model factories by normalized
  name, attribute and relationship definitions by the name they were asked with) and
  builds records from identifiers. Object identity matters for it (a cache hit returns
  the very object that was stored), so objects live in an explicit heap and a reference
  is an address into it.
\<close>

subsection \<open>Values and heap objects\<close>

type_synonym addr = nat

text \<open>
  The JavaScript values the store handles: the primitives it tests for, references to
  heap objects, and the store instance itself (\<^verbatim>\<open>this\<close>).
\<close>

datatype jsval = Undefined | Null | Boolean bool | Str string | Object addr | StoreRef

text \<open>
  A property key is a name, or the key under which \<^verbatim>\<open>setOwner\<close> keeps the owner of an
  object; that key differs from every name.
\<close>

datatype key = Name string | OWNER

datatype obj =
    JSObject "key \<Rightarrow> jsval option"
  | JSMap "(string \<times> jsval) list"
  | ShimModelClass jsval jsval
  | DSModelSchemaDefinitionService jsval

datatype error =
    AssertionFailed string
  | EmberError string
  | Thrown string
  | TypeError

text \<open>A warning given by \<^verbatim>\<open>deprecate\<close>: its message, and the id and until of its options.\<close>

datatype event = Deprecate string string string

record stableRecordIdentifier =
  identifier_type :: string
  identifier_id :: "string option"

text \<open>
  The store instance. \<open>heap\<close> holds every object allocated so far, \<open>registry\<close> is the
  environment's factory lookup (the owner's container, which other code registers
  factories in), \<open>owner\<close> is what \<^verbatim>\<open>getOwner(this)\<close> returns, \<open>warnings\<close> collects the
  deprecation warnings given so far. The other fields are the fields of the class; a
  leading underscore of the source is dropped.
\<close>

record store =
  heap :: "obj list"
  registry :: "string \<Rightarrow> addr option"
  owner :: jsval
  modelFactoryCache :: "string \<Rightarrow> addr option"
  relationshipsDefCache :: "string \<Rightarrow> jsval option"
  attributesDefCache :: "string \<Rightarrow> jsval option"
  schemaDefinitionService :: "addr option"
  shouldAssertMethodCallsOnDestroyedStore :: jsval
  isDestroying :: bool
  isDestroyed :: bool
  warnings :: "event list"

text \<open>
  A method either returns a value or throws; in both cases the store is left in some
  state, which later calls see.
\<close>

type_synonym 'a action = "store \<Rightarrow> (error + 'a) \<times> store"

definition succeed :: "'a \<Rightarrow> 'a action" where
  "succeed x s = (Inr x, s)"

definition throw :: "error \<Rightarrow> 'a action" where
  "throw e s = (Inl e, s)"

definition andThen :: "'a action \<Rightarrow> ('a \<Rightarrow> 'b action) \<Rightarrow> 'b action" where
  "andThen m f s = (case m s of (Inl e, s') \<Rightarrow> (Inl e, s') | (Inr x, s') \<Rightarrow> f x s')"

definition lift :: "error + 'a \<Rightarrow> 'a action" where
  "lift r s = (r, s)"

text \<open>
  What the module imports and this file does not define: the build flags, Ember's
  \<^verbatim>\<open>isPresent\<close> and \<^verbatim>\<open>get\<close>, the name normalizer, \<^verbatim>\<open>_internalModelForResource\<close> of the core
  store, the \<^verbatim>\<open>create\<close> method of a factory, \<^verbatim>\<open>subscribe\<close> of the notification
  manager, and the methods of a schema definition service (which take the service
  object they are called on). They are parameters of the model.
\<close>

record env =
  DEBUG :: bool
  CUSTOM_MODEL_CLASS :: bool
  isPresent :: "jsval \<Rightarrow> bool"
  normalizeModelName :: "jsval \<Rightarrow> error + string"
  get :: "obj list \<Rightarrow> jsval \<Rightarrow> string \<Rightarrow> error + jsval"
  internalModelForResource :: "stableRecordIdentifier \<Rightarrow> jsval action"
  create :: "addr \<Rightarrow> (key \<Rightarrow> jsval option) \<Rightarrow> jsval action"
  subscribe :: "stableRecordIdentifier \<Rightarrow> jsval \<Rightarrow> unit action"
  service_attributesDefinitionFor :: "addr \<Rightarrow> string \<Rightarrow> jsval action"
  service_relationshipsDefinitionFor :: "addr \<Rightarrow> string \<Rightarrow> jsval action"
  service_doesTypeExist :: "addr \<Rightarrow> jsval \<Rightarrow> jsval action"

subsection \<open>JavaScript primitives\<close>

fun truthy :: "jsval \<Rightarrow> bool" where
  "truthy Undefined = False"
| "truthy Null = False"
| "truthy (Boolean b) = b"
| "truthy (Str s) = (s \<noteq> [])"
| "truthy (Object a) = True"
| "truthy StoreRef = True"

text \<open>\<^verbatim>\<open>typeof\<close>; the source compares it with \<^verbatim>\<open>'string'\<close> only.\<close>

fun typeof :: "jsval \<Rightarrow> string" where
  "typeof Undefined = ''undefined''"
| "typeof Null = ''object''"
| "typeof (Boolean b) = ''boolean''"
| "typeof (Str s) = ''string''"
| "typeof (Object a) = ''object''"
| "typeof StoreRef = ''object''"

text \<open>The string a value becomes inside a template literal.\<close>

fun ToString :: "jsval \<Rightarrow> string" where
  "ToString Undefined = ''undefined''"
| "ToString Null = ''null''"
| "ToString (Boolean b) = (if b then ''true'' else ''false'')"
| "ToString (Str s) = s"
| "ToString (Object a) = ''[object Object]''"
| "ToString StoreRef = ''[object Object]''"

definition deref :: "obj list \<Rightarrow> addr \<Rightarrow> obj option" where
  "deref h a = (if a < length h then Some (h ! a) else None)"

text \<open>
  \<^verbatim>\<open>v.k\<close> for a value \<open>v\<close> that is neither \<^verbatim>\<open>undefined\<close> nor \<^verbatim>\<open>null\<close>: the property of a
  plain object, \<^verbatim>\<open>undefined\<close> where there is none.
\<close>

definition getprop :: "obj list \<Rightarrow> jsval \<Rightarrow> key \<Rightarrow> jsval" where
  "getprop h v k =
     (case v of
        Object a \<Rightarrow>
          (case deref h a of
             Some (JSObject props) \<Rightarrow> (case props k of Some x \<Rightarrow> x | None \<Rightarrow> Undefined)
           | _ \<Rightarrow> Undefined)
      | _ \<Rightarrow> Undefined)"

text \<open>\<^verbatim>\<open>v.k\<close> and \<^verbatim>\<open>v[k]\<close> for any value: reading a property of nothing is a TypeError.\<close>

definition index :: "obj list \<Rightarrow> jsval \<Rightarrow> key \<Rightarrow> error + jsval" where
  "index h v k =
     (case v of
        Undefined \<Rightarrow> Inl TypeError
      | Null \<Rightarrow> Inl TypeError
      | _ \<Rightarrow> Inr (getprop h v k))"

text \<open>\<^verbatim>\<open>new C(...)\<close> and \<^verbatim>\<open>Object.create(null)\<close>: the new object gets the next address.\<close>

definition alloc :: "obj \<Rightarrow> addr action" where
  "alloc ob s = (Inr (length (heap s)), s\<lparr>heap := heap s @ [ob]\<rparr>)"

text \<open>\<^verbatim>\<open>o[k] = v\<close> on the plain object at address \<open>a\<close>.\<close>

definition setprop :: "addr \<Rightarrow> key \<Rightarrow> jsval \<Rightarrow> unit action" where
  "setprop a k v s =
     (case deref (heap s) a of
        Some (JSObject props) \<Rightarrow> (Inr (), s\<lparr>heap := (heap s)[a := JSObject (props(k \<mapsto> v))]\<rparr>)
      | _ \<Rightarrow> (Inr (), s))"

text \<open>The entries of a \<^verbatim>\<open>Map\<close>, in insertion order; anything else has no \<^verbatim>\<open>forEach\<close> or \<^verbatim>\<open>get\<close>.\<close>

definition mapEntries :: "obj list \<Rightarrow> jsval \<Rightarrow> error + (string \<times> jsval) list" where
  "mapEntries h m =
     (case m of
        Object a \<Rightarrow> (case deref h a of Some (JSMap es) \<Rightarrow> Inr es | _ \<Rightarrow> Inl TypeError)
      | _ \<Rightarrow> Inl TypeError)"

text \<open>\<^verbatim>\<open>map.forEach((value, key) => f(value, key))\<close>.\<close>

fun forEach :: "(string \<times> jsval) list \<Rightarrow> (jsval \<Rightarrow> string \<Rightarrow> unit action) \<Rightarrow> unit action" where
  "forEach [] f = succeed ()"
| "forEach ((k, v) # es) f = andThen (f v k) (\<lambda>_. forEach es f)"

text \<open>\<^verbatim>\<open>map.get(key)\<close>.\<close>

definition mapGet :: "obj list \<Rightarrow> jsval \<Rightarrow> string \<Rightarrow> error + jsval" where
  "mapGet h m k =
     (case mapEntries h m of
        Inl e \<Rightarrow> Inl e
      | Inr es \<Rightarrow> Inr (case map_of es k of Some v \<Rightarrow> v | None \<Rightarrow> Undefined))"

text \<open>\<^verbatim>\<open>cache[name]\<close> on a cache made by \<^verbatim>\<open>Object.create(null)\<close>.\<close>

definition cacheGet :: "(string \<Rightarrow> jsval option) \<Rightarrow> string \<Rightarrow> jsval" where
  "cacheGet cache name = (case cache name of Some v \<Rightarrow> v | None \<Rightarrow> Undefined)"

text \<open>
  \<^verbatim>\<open>assert(message, test)\<close> of \<^verbatim>\<open>@ember/debug\<close> throws in a debug build when the test
  fails and is stripped from a production build. \<^verbatim>\<open>deprecate(message, test, options)\<close>
  warns when the test fails, in a debug build.
\<close>

definition assert :: "env \<Rightarrow> string \<Rightarrow> bool \<Rightarrow> unit action" where
  "assert env message test =
     (if DEBUG env \<and> \<not> test then throw (AssertionFailed message) else succeed ())"

definition deprecate :: "env \<Rightarrow> string \<Rightarrow> bool \<Rightarrow> string \<Rightarrow> string \<Rightarrow> unit action" where
  "deprecate env message test ident until s =
     (if DEBUG env \<and> \<not> test
      then (Inr (), s\<lparr>warnings := warnings s @ [Deprecate message ident until]\<rparr>)
      else (Inr (), s))"

text \<open>
  \<^verbatim>\<open>assign(target, source)\<close>: every own property of the source is set on the target. Setting
  \<^verbatim>\<open>__proto__\<close> on an object literal changes its prototype and adds no property.
\<close>

definition assign :: "(key \<Rightarrow> jsval option) \<Rightarrow> (key \<Rightarrow> jsval option) \<Rightarrow> (key \<Rightarrow> jsval option)" where
  "assign target source = target ++ (source |` (- {Name ''__proto__''}))"

definition setOwner :: "(key \<Rightarrow> jsval option) \<Rightarrow> jsval \<Rightarrow> (key \<Rightarrow> jsval option)" where
  "setOwner object newOwner = object(OWNER \<mapsto> newOwner)"

definition getOwner :: "store \<Rightarrow> jsval" where
  "getOwner s = owner s"

subsection \<open>The lifecycle guards\<close>

text \<open>
  Both functions exist in a debug build only, and every call of them is under
  \<^verbatim>\<open>if (DEBUG)\<close>.
\<close>

definition assertDestroyingStore :: "env \<Rightarrow> string \<Rightarrow> unit action" where
  "assertDestroyingStore env method s =
     (if \<not> truthy (shouldAssertMethodCallsOnDestroyedStore s)
      then deprecate env
             (''Attempted to call store.'' @ method @ ''(), but the store instance has already been destroyed.'')
             (\<not> (isDestroying s \<or> isDestroyed s))
             ''ember-data:method-calls-on-destroyed-store'' ''3.8'' s
      else assert env
             (''Attempted to call store.'' @ method @ ''(), but the store instance has already been destroyed.'')
             (\<not> (isDestroying s \<or> isDestroyed s)) s)"

definition assertDestroyedStoreOnly :: "env \<Rightarrow> string \<Rightarrow> unit action" where
  "assertDestroyedStoreOnly env method s =
     (if \<not> truthy (shouldAssertMethodCallsOnDestroyedStore s)
      then deprecate env
             (''Attempted to call store.'' @ method @ ''(), but the store instance has already been destroyed.'')
             (\<not> isDestroyed s)
             ''ember-data:method-calls-on-destroyed-store'' ''3.8'' s
      else assert env
             (''Attempted to call store.'' @ method @ ''(), but the store instance has already been destroyed.'')
             (\<not> isDestroyed s) s)"

subsection \<open>Factories and model classes\<close>

text \<open>
  Modelled from the spec: \<^verbatim>\<open>getModelFactory(store, cache, normalizedModelName)\<close> is imported
  from \<^verbatim>\<open>schema-definition-service\<close>, which is not among the sources. The specification
  (4.1) says: look the normalized name up in the store-scoped cache; on a hit return the
  cached handle, with no new lookup; on a miss ask the environment for a factory of that
  name; if there is none, the result is \<^verbatim>\<open>null\<close> and nothing is cached; otherwise the
  factory is cached and returned. The cache argument is always the store's
  \<^verbatim>\<open>_modelFactoryCache\<close>.
\<close>

definition getModelFactory :: "string \<Rightarrow> addr option action" where
  "getModelFactory normalizedModelName s =
     (case modelFactoryCache s normalizedModelName of
        Some factory \<Rightarrow> (Inr (Some factory), s)
      | None \<Rightarrow>
          (case registry s normalizedModelName of
             None \<Rightarrow> (Inr None, s)
           | Some factory \<Rightarrow>
               (Inr (Some factory),
                s\<lparr>modelFactoryCache := (modelFactoryCache s)(normalizedModelName \<mapsto> factory)\<rparr>)))"

definition modelFactoryFor :: "env \<Rightarrow> jsval \<Rightarrow> jsval action" where
  "modelFactoryFor env modelName =
     andThen (if DEBUG env then assertDestroyedStoreOnly env ''_modelFactoryFor'' else succeed ()) (\<lambda>_.
     andThen (assert env ''You need to pass a model name to the store's _modelFactoryFor method''
                (isPresent env modelName)) (\<lambda>_.
     andThen (assert env
                (''Passing classes to store methods has been removed. Please pass a dasherized string instead of ''
                   @ ToString modelName)
                (typeof modelName = ''string'')) (\<lambda>_.
     andThen (lift (normalizeModelName env modelName)) (\<lambda>normalizedModelName.
     andThen (getModelFactory normalizedModelName) (\<lambda>factory.
       case factory of
         None \<Rightarrow> throw (EmberError (''No model was found for '' @ [CHR 0x27] @ normalizedModelName @ [CHR 0x27]))
       | Some f \<Rightarrow> succeed (Object f))))))"

text \<open>\<^verbatim>\<open>maybeFactory.class ? maybeFactory.class : maybeFactory\<close>, the local \<^verbatim>\<open>klass\<close> of \<^verbatim>\<open>modelFor\<close>.\<close>

definition klass :: "obj list \<Rightarrow> jsval \<Rightarrow> jsval" where
  "klass h maybeFactory =
     (if truthy (getprop h maybeFactory (Name ''class''))
      then getprop h maybeFactory (Name ''class'')
      else maybeFactory)"

definition modelFor :: "env \<Rightarrow> jsval \<Rightarrow> jsval action" where
  "modelFor env modelName =
     andThen (if DEBUG env then assertDestroyedStoreOnly env ''modelFor'' else succeed ()) (\<lambda>_.
     andThen (assert env ''You need to pass a model name to the store's modelFor method''
                (isPresent env modelName)) (\<lambda>_.
     andThen (assert env
                (''Passing classes to store methods has been removed. Please pass a dasherized string instead of ''
                   @ ToString modelName)
                (typeof modelName = ''string'')) (\<lambda>_.
     andThen (modelFactoryFor env modelName) (\<lambda>maybeFactory s.
       if \<not> truthy (getprop (heap s) (klass (heap s) maybeFactory) (Name ''isModel''))
       then andThen (alloc (ShimModelClass StoreRef modelName)) (\<lambda>a. succeed (Object a)) s
       else succeed (klass (heap s) maybeFactory) s))))"

definition getSchemaDefinitionService :: "env \<Rightarrow> addr action" where
  "getSchemaDefinitionService env =
     (if CUSTOM_MODEL_CLASS env
      then (\<lambda>s.
        case schemaDefinitionService s of
          None \<Rightarrow>
            andThen (alloc (DSModelSchemaDefinitionService StoreRef)) (\<lambda>a s'.
              (Inr a, s'\<lparr>schemaDefinitionService := Some a\<rparr>)) s
        | Some a \<Rightarrow> succeed a s)
      else throw (Thrown ''schema service is only available when custom model class feature flag is on''))"

definition hasModelFor :: "env \<Rightarrow> jsval \<Rightarrow> jsval action" where
  "hasModelFor env modelName =
     andThen (if DEBUG env then assertDestroyingStore env ''_hasModelFor'' else succeed ()) (\<lambda>_.
     andThen (assert env ''You need to pass a model name to the store's hasModelFor method''
                (isPresent env modelName)) (\<lambda>_.
     andThen (assert env
                (''Passing classes to store methods has been removed. Please pass a dasherized string instead of ''
                   @ ToString modelName)
                (typeof modelName = ''string'')) (\<lambda>_.
     if CUSTOM_MODEL_CLASS env
     then andThen (getSchemaDefinitionService env) (\<lambda>service. service_doesTypeExist env service modelName)
     else
       andThen (assert env ''You need to pass a model name to the store's hasModelFor method''
                  (isPresent env modelName)) (\<lambda>_.
       andThen (assert env
                  (''Passing classes to store methods has been removed. Please pass a dasherized string instead of ''
                     @ ToString modelName)
                  (typeof modelName = ''string'')) (\<lambda>_.
       andThen (lift (normalizeModelName env modelName)) (\<lambda>normalizedModelName.
       andThen (getModelFactory normalizedModelName) (\<lambda>factory.
         succeed (Boolean (factory \<noteq> None)))))))))"

subsection \<open>Attribute and relationship definitions\<close>

definition attributesDefinitionFor :: "env \<Rightarrow> string \<Rightarrow> jsval action" where
  "attributesDefinitionFor env modelName =
     (if CUSTOM_MODEL_CLASS env
      then andThen (getSchemaDefinitionService env) (\<lambda>service.
             service_attributesDefinitionFor env service modelName)
      else (\<lambda>s.
        let attributes = cacheGet (attributesDefCache s) modelName
        in if attributes = Undefined
           then
             andThen (modelFor env (Str modelName)) (\<lambda>modelClass.
             andThen (\<lambda>s1. lift (get env (heap s1) modelClass ''attributes'') s1) (\<lambda>attributeMap.
             andThen (alloc (JSObject Map.empty)) (\<lambda>a.
             andThen (\<lambda>s2. lift (mapEntries (heap s2) attributeMap) s2) (\<lambda>entries.
             andThen (forEach entries (\<lambda>meta name. setprop a (Name name) meta)) (\<lambda>_ s3.
               (Inr (Object a),
                s3\<lparr>attributesDefCache := (attributesDefCache s3)(modelName \<mapsto> Object a)\<rparr>)))))) s
           else (Inr attributes, s)))"

definition relationshipsDefinitionFor :: "env \<Rightarrow> string \<Rightarrow> jsval action" where
  "relationshipsDefinitionFor env modelName =
     (if CUSTOM_MODEL_CLASS env
      then andThen (getSchemaDefinitionService env) (\<lambda>service.
             service_relationshipsDefinitionFor env service modelName)
      else (\<lambda>s.
        let relationships = cacheGet (relationshipsDefCache s) modelName
        in if relationships = Undefined
           then
             andThen (modelFor env (Str modelName)) (\<lambda>modelClass.
             andThen (\<lambda>s1. lift (get env (heap s1) modelClass ''relationshipsObject'') s1) (\<lambda>r s2.
               let relationships = (if truthy r then r else Null)
               in (Inr relationships,
                   s2\<lparr>relationshipsDefCache := (relationshipsDefCache s2)(modelName \<mapsto> relationships)\<rparr>))) s
           else (Inr relationships, s)))"

text \<open>
  Modelled from the spec: \<^verbatim>\<open>ShimModelClass\<close> is imported from \<^verbatim>\<open>model/shim-model-class\<close>, which is
  not among the sources. The specification (4.1) describes it as a minimal stand-in,
  built for a type that lacks a full definition, which gives introspection code the same
  surface as a model class. It holds the store and the model name it was built with and
  no metadata of its own: its \<^verbatim>\<open>relationshipsByName\<close> is answered by that store, as a
  \<^verbatim>\<open>Map\<close> of the own properties of what \<^verbatim>\<open>_relationshipsDefinitionFor\<close> returns for the model
  name (an empty one for \<^verbatim>\<open>null\<close>). \<^verbatim>\<open>_relationshipMetaFor\<close> reads \<^verbatim>\<open>get(key)\<close> of that \<^verbatim>\<open>Map\<close>
  and drops it, so the model gives the value under the key and allocates no \<^verbatim>\<open>Map\<close>.
\<close>

definition shimModelName :: "obj list \<Rightarrow> jsval \<Rightarrow> string option" where
  "shimModelName h v =
     (case v of
        Object a \<Rightarrow>
          (case deref h a of
             Some (ShimModelClass st (Str modelName)) \<Rightarrow> Some modelName
           | _ \<Rightarrow> None)
      | _ \<Rightarrow> None)"

definition shimRelationshipMeta :: "env \<Rightarrow> string \<Rightarrow> string \<Rightarrow> jsval action" where
  "shimRelationshipMeta env modelName k =
     andThen (relationshipsDefinitionFor env modelName) (\<lambda>relationships s.
       (Inr (getprop (heap s) relationships (Name k)), s))"

text \<open>
  The argument \<open>id\<close> of the source is \<open>ident\<close> here. \<^verbatim>\<open>get(modelClass, 'relationshipsByName')\<close>
  is the getter of the stand-in when \<^verbatim>\<open>modelFor\<close> returned one, and the introspection of the
  class otherwise.
\<close>

definition relationshipMetaFor :: "env \<Rightarrow> string \<Rightarrow> string option \<Rightarrow> string \<Rightarrow> jsval action" where
  "relationshipMetaFor env modelName ident k =
     (if CUSTOM_MODEL_CLASS env
      then andThen (relationshipsDefinitionFor env modelName) (\<lambda>relationships s.
             lift (index (heap s) relationships (Name k)) s)
      else
        andThen (modelFor env (Str modelName)) (\<lambda>modelClass s.
          case shimModelName (heap s) modelClass of
            Some name \<Rightarrow> shimRelationshipMeta env name k s
          | None \<Rightarrow>
              andThen (\<lambda>s. lift (get env (heap s) modelClass ''relationshipsByName'') s)
                (\<lambda>relationshipsByName s.
                   lift (mapGet (heap s) relationshipsByName k) s) s))"

subsection \<open>Building a record\<close>

text \<open>
  The arguments \<^verbatim>\<open>recordDataFor\<close> and \<^verbatim>\<open>notificationManager\<close> of the source are no arguments
  here: the first is not used, and \<^verbatim>\<open>subscribe\<close> of the second is a parameter of the
  model, which gets the identifier and the record that the callback holds.
\<close>

definition instantiateRecord ::
  "env \<Rightarrow> stableRecordIdentifier \<Rightarrow> (key \<Rightarrow> jsval option) \<Rightarrow> jsval action" where
  "instantiateRecord env identifier createRecordArgs =
     (let modelName = identifier_type identifier in
      andThen (internalModelForResource env identifier) (\<lambda>internalModel.
      andThen (\<lambda>s. lift (index (heap s) internalModel (Name ''currentState'')) s) (\<lambda>currentState s.
        let createOptions =
              [Name ''store'' \<mapsto> StoreRef,
               Name ''_internalModel'' \<mapsto> internalModel,
               Name ''currentState'' \<mapsto> currentState,
               Name ''container'' \<mapsto> Null];
            createOptions = assign createOptions createRecordArgs;
            createOptions = setOwner createOptions (getOwner s);
            createOptions = createOptions(Name ''container'' := None)
        in andThen (modelFactoryFor env (Str modelName)) (\<lambda>factory.
           andThen (case factory of Object f \<Rightarrow> create env f createOptions | _ \<Rightarrow> throw TypeError) (\<lambda>record.
           andThen (subscribe env identifier record) (\<lambda>_.
           succeed record))) s)))"

subsection \<open>An example application\<close>

text \<open>
  The scenario of the specification: a type \<^verbatim>\<open>person\<close> registered with a factory whose
  class is a model with the attribute \<^verbatim>\<open>name\<close> and the relationship \<^verbatim>\<open>pets\<close>, and a
  normalizer that puts names in lower case (here: the letter P, the only capital in the
  names used); a name is present when it has a character that is no space. Further a
  type \<^verbatim>\<open>comment\<close> whose factory is no model class, and a model \<^verbatim>\<open>tag\<close> that declares no
  relationships. \<^verbatim>\<open>get\<close> reads a property of the class object. The heap holds, by
  address: the factory (0) and class (1) of \<^verbatim>\<open>person\<close>, its attribute map (2) with the
  metadata of \<^verbatim>\<open>name\<close> (3), an internal model (4), the factory of \<^verbatim>\<open>comment\<close> (5), the
  relationships object (6) and map (7) of \<^verbatim>\<open>person\<close> with the metadata of \<^verbatim>\<open>pets\<close> (8),
  the factory (9), class (10) and attribute map (11) of \<^verbatim>\<open>tag\<close>, and the owner (12).
\<close>

definition exampleEnv :: "bool \<Rightarrow> bool \<Rightarrow> env" where
  "exampleEnv debug custom =
     \<lparr>DEBUG = debug,
      CUSTOM_MODEL_CLASS = custom,
      isPresent =
        (\<lambda>v. case v of
               Undefined \<Rightarrow> False
             | Null \<Rightarrow> False
             | Str s \<Rightarrow> list_ex (\<lambda>c. c \<noteq> CHR '' '') s
             | _ \<Rightarrow> True),
      normalizeModelName =
        (\<lambda>v. case v of
               Str s \<Rightarrow> Inr (map (\<lambda>c. if c = CHR ''P'' then CHR ''p'' else c) s)
             | _ \<Rightarrow> Inl TypeError),
      get = (\<lambda>h v k. Inr (getprop h v (Name k))),
      internalModelForResource = (\<lambda>i. succeed (Object 4)),
      create = (\<lambda>f opts. andThen (alloc (JSObject opts)) (\<lambda>a. succeed (Object a))),
      subscribe = (\<lambda>i r. succeed ()),
      service_attributesDefinitionFor = (\<lambda>a m. succeed (Object 3)),
      service_relationshipsDefinitionFor = (\<lambda>a m. succeed (Object 6)),
      service_doesTypeExist = (\<lambda>a m. succeed (Boolean True))\<rparr>"

definition exampleHeap :: "obj list" where
  "exampleHeap =
     [JSObject [Name ''class'' \<mapsto> Object 1],
      JSObject [Name ''isModel'' \<mapsto> Boolean True, Name ''attributes'' \<mapsto> Object 2,
                Name ''relationshipsObject'' \<mapsto> Object 6, Name ''relationshipsByName'' \<mapsto> Object 7],
      JSMap [(''name'', Object 3)],
      JSObject [Name ''type'' \<mapsto> Str ''string''],
      JSObject [Name ''currentState'' \<mapsto> Str ''root.empty''],
      JSObject Map.empty,
      JSObject [Name ''pets'' \<mapsto> Object 8],
      JSMap [(''pets'', Object 8)],
      JSObject [Name ''kind'' \<mapsto> Str ''hasMany''],
      JSObject [Name ''class'' \<mapsto> Object 10],
      JSObject [Name ''isModel'' \<mapsto> Boolean True, Name ''attributes'' \<mapsto> Object 11],
      JSMap [],
      JSObject Map.empty]"

definition exampleStore :: store where
  "exampleStore =
     \<lparr>heap = exampleHeap,
      registry = [''person'' \<mapsto> 0, ''comment'' \<mapsto> 5, ''tag'' \<mapsto> 9],
      owner = Object 12,
      modelFactoryCache = Map.empty,
      relationshipsDefCache = Map.empty,
      attributesDefCache = Map.empty,
      schemaDefinitionService = None,
      shouldAssertMethodCallsOnDestroyedStore = Undefined,
      isDestroying = False,
      isDestroyed = False,
      warnings = []\<rparr>"

subsection \<open>Independence of the relationship cache\<close>

text \<open>
  A method ignores the relationship cache when it runs the same way whatever that cache
  holds: same result, and a final state that differs in that cache only.
\<close>

definition ignoresRelationshipsDefCache :: "'a action \<Rightarrow> bool" where
  "ignoresRelationshipsDefCache a \<longleftrightarrow>
     (\<forall>s c. a (s\<lparr>relationshipsDefCache := c\<rparr>)
              = (fst (a s), (snd (a s))\<lparr>relationshipsDefCache := c\<rparr>))"


section \<open>Properties\<close>

subsection \<open>Auxiliary facts\<close>

lemmas monad_defs = andThen_def succeed_def throw_def lift_def

lemmas eval_defs = modelFactoryFor_def modelFor_def attributesDefinitionFor_def relationshipsDefinitionFor_def
  relationshipMetaFor_def shimModelName_def shimRelationshipMeta_def getModelFactory_def getSchemaDefinitionService_def klass_def
  andThen_def succeed_def throw_def lift_def alloc_def setprop_def deref_def getprop_def index_def
  mapEntries_def mapGet_def cacheGet_def assert_def deprecate_def assertDestroyedStoreOnly_def
  assertDestroyingStore_def exampleEnv_def exampleStore_def exampleHeap_def Let_def

lemma andThen_Inr: "m s = (Inr x, s') \<Longrightarrow> andThen m f s = f x s'"
  by (simp add: andThen_def)

lemma assert_pass: "DEBUG env \<longrightarrow> test \<Longrightarrow> assert env message test t = (Inr (), t)"
  by (auto simp add: assert_def succeed_def)

lemma guardOnly_result:
  "(if DEBUG env then assertDestroyedStoreOnly env meth else succeed ()) s =
     (if DEBUG env \<and> isDestroyed s
      then (if truthy (shouldAssertMethodCallsOnDestroyedStore s)
            then (Inl (AssertionFailed (''Attempted to call store.'' @ meth @ ''(), but the store instance has already been destroyed.'')), s)
            else (Inr (), s\<lparr>warnings := warnings s @ [Deprecate (''Attempted to call store.'' @ meth @ ''(), but the store instance has already been destroyed.'') ''ember-data:method-calls-on-destroyed-store'' ''3.8'']\<rparr>))
      else (Inr (), s))"
  by (simp add: assertDestroyedStoreOnly_def deprecate_def assert_def monad_defs)

lemma guard_strict_operations:
  assumes "DEBUG env" "truthy (shouldAssertMethodCallsOnDestroyedStore s)"
  shows "isDestroyed s \<longrightarrow>
           modelFor env m s = (Inl (AssertionFailed ''Attempted to call store.modelFor(), but the store instance has already been destroyed.''), s)
         \<and> modelFactoryFor env m s = (Inl (AssertionFailed ''Attempted to call store._modelFactoryFor(), but the store instance has already been destroyed.''), s)"
    and "isDestroying s \<or> isDestroyed s \<longrightarrow>
           hasModelFor env m s = (Inl (AssertionFailed ''Attempted to call store._hasModelFor(), but the store instance has already been destroyed.''), s)"
  using assms
  by (auto simp add: modelFor_def modelFactoryFor_def hasModelFor_def andThen_def
        assertDestroyedStoreOnly_def assertDestroyingStore_def assert_def throw_def)

lemma guard_warning_operations:
  assumes "DEBUG env" "\<not> truthy (shouldAssertMethodCallsOnDestroyedStore s)" "isDestroyed s"
  shows "fst (modelFactoryFor env m s) = fst (modelFactoryFor env m (s\<lparr>isDestroyed := False\<rparr>))"
    and "warnings (snd (modelFactoryFor env m s)) = warnings s @ [Deprecate ''Attempted to call store._modelFactoryFor(), but the store instance has already been destroyed.'' ''ember-data:method-calls-on-destroyed-store'' ''3.8'']"
  using assms
  by (auto simp add: modelFactoryFor_def andThen_def assertDestroyedStoreOnly_def deprecate_def
        assert_def getModelFactory_def succeed_def throw_def lift_def split: sum.splits option.splits)

lemma guard_warning_modelFor:
  assumes "DEBUG env" "\<not> truthy (shouldAssertMethodCallsOnDestroyedStore s)" "isDestroyed s"
  shows "fst (modelFor env m s) = fst (modelFor env m (s\<lparr>isDestroyed := False\<rparr>))"
    and "warnings (snd (modelFor env m s))
           = warnings s @
             Deprecate ''Attempted to call store.modelFor(), but the store instance has already been destroyed.''
               ''ember-data:method-calls-on-destroyed-store'' ''3.8''
             # (if isPresent env m \<and> typeof m = ''string''
                then [Deprecate ''Attempted to call store._modelFactoryFor(), but the store instance has already been destroyed.''
                        ''ember-data:method-calls-on-destroyed-store'' ''3.8'']
                else [])"
  using assms
  by (auto simp add: modelFor_def modelFactoryFor_def andThen_def assertDestroyedStoreOnly_def deprecate_def
        assert_def getModelFactory_def succeed_def throw_def lift_def alloc_def
        split: sum.splits option.splits)

lemma guard_warning_hasModelFor:
  assumes "DEBUG env" "\<not> truthy (shouldAssertMethodCallsOnDestroyedStore s)"
    "isDestroying s \<or> isDestroyed s"
  shows "\<not> CUSTOM_MODEL_CLASS env \<Longrightarrow>
           fst (hasModelFor env m s) = fst (hasModelFor env m (s\<lparr>isDestroying := False, isDestroyed := False\<rparr>))
         \<and> warnings (snd (hasModelFor env m s))
           = warnings s @
             [Deprecate ''Attempted to call store._hasModelFor(), but the store instance has already been destroyed.''
               ''ember-data:method-calls-on-destroyed-store'' ''3.8'']"
    and "CUSTOM_MODEL_CLASS env \<Longrightarrow> isPresent env m \<Longrightarrow> typeof m = ''string'' \<Longrightarrow>
           hasModelFor env m s
             = andThen (getSchemaDefinitionService env) (\<lambda>service. service_doesTypeExist env service m)
                 (s\<lparr>warnings := warnings s @
                    [Deprecate ''Attempted to call store._hasModelFor(), but the store instance has already been destroyed.''
                       ''ember-data:method-calls-on-destroyed-store'' ''3.8'']\<rparr>)"
  using assms
  by (auto simp add: hasModelFor_def andThen_def assertDestroyingStore_def deprecate_def
        assert_def getModelFactory_def succeed_def throw_def lift_def
        split: sum.splits option.splits)

lemma guardOnly_fields:
  "heap (snd ((if DEBUG env then assertDestroyedStoreOnly env meth else succeed ()) t)) = heap t"
  "registry (snd ((if DEBUG env then assertDestroyedStoreOnly env meth else succeed ()) t)) = registry t"
  "modelFactoryCache (snd ((if DEBUG env then assertDestroyedStoreOnly env meth else succeed ()) t)) = modelFactoryCache t"
  "attributesDefCache (snd ((if DEBUG env then assertDestroyedStoreOnly env meth else succeed ()) t)) = attributesDefCache t"
  "relationshipsDefCache (snd ((if DEBUG env then assertDestroyedStoreOnly env meth else succeed ()) t)) = relationshipsDefCache t"
  "isDestroyed (snd ((if DEBUG env then assertDestroyedStoreOnly env meth else succeed ()) t)) = isDestroyed t"
  "shouldAssertMethodCallsOnDestroyedStore (snd ((if DEBUG env then assertDestroyedStoreOnly env meth else succeed ()) t))
     = shouldAssertMethodCallsOnDestroyedStore t"
  by (simp_all add: guardOnly_result)

lemma modelFactoryFor_frame:
  assumes "modelFactoryFor env m s = (r, s')"
  shows "heap s' = heap s \<and> registry s' = registry s \<and> owner s' = owner s
       \<and> relationshipsDefCache s' = relationshipsDefCache s
       \<and> attributesDefCache s' = attributesDefCache s
       \<and> schemaDefinitionService s' = schemaDefinitionService s
       \<and> shouldAssertMethodCallsOnDestroyedStore s' = shouldAssertMethodCallsOnDestroyedStore s
       \<and> isDestroying s' = isDestroying s \<and> isDestroyed s' = isDestroyed s"
  using assms
  by (auto simp add: modelFactoryFor_def andThen_def guardOnly_result assert_def getModelFactory_def succeed_def throw_def lift_def
       split: if_splits sum.splits option.splits prod.splits)

lemma modelFactoryFor_success:
  assumes "modelFactoryFor env m s = (Inr v, s')"
  shows "\<exists>n f. normalizeModelName env m = Inr n \<and> v = Object f \<and> modelFactoryCache s' n = Some f
          \<and> (modelFactoryCache s n = Some f \<or> modelFactoryCache s n = None \<and> registry s n = Some f)
          \<and> (DEBUG env \<longrightarrow> isPresent env m \<and> typeof m = ''string''
                \<and> \<not> (isDestroyed s \<and> truthy (shouldAssertMethodCallsOnDestroyedStore s)))"
  using assms
  by (auto simp add: modelFactoryFor_def andThen_def guardOnly_result assert_def getModelFactory_def succeed_def throw_def lift_def
       split: if_splits sum.splits option.splits prod.splits)

lemma modelFactoryFor_hit:
  assumes "normalizeModelName env m = Inr n" "modelFactoryCache s n = Some f"
    and "DEBUG env \<longrightarrow> isPresent env m \<and> typeof m = ''string''
                \<and> \<not> (isDestroyed s \<and> truthy (shouldAssertMethodCallsOnDestroyedStore s))"
  shows "modelFactoryFor env m s = (Inr (Object f), snd ((if DEBUG env then assertDestroyedStoreOnly env ''_modelFactoryFor'' else succeed ()) s))"
  using assms
  by (auto simp add: modelFactoryFor_def andThen_def guardOnly_result assert_def getModelFactory_def succeed_def throw_def lift_def
       split: if_splits sum.splits option.splits prod.splits)

lemma getprop_append_shim: "getprop (h @ [ShimModelClass x y]) v k = getprop h v k"
  by (auto simp add: getprop_def deref_def nth_append split: jsval.splits obj.splits option.splits)

lemma klass_append_shim: "klass (h @ [ShimModelClass x y]) f = klass h f"
  by (simp add: klass_def getprop_append_shim)

lemma modelFor_success:
  assumes "modelFor env m s = (Inr v, s')"
  shows "\<exists>f s1. modelFactoryFor env m (snd ((if DEBUG env then assertDestroyedStoreOnly env ''modelFor'' else succeed ()) s))
                  = (Inr (Object f), s1)
          \<and> (if truthy (getprop (heap s1) (klass (heap s1) (Object f)) (Name ''isModel''))
              then v = klass (heap s1) (Object f) \<and> s' = s1
              else v = Object (length (heap s1))
                 \<and> s' = s1\<lparr>heap := heap s1 @ [ShimModelClass StoreRef m]\<rparr>)"
proof -
  let ?g = "(if DEBUG env then assertDestroyedStoreOnly env ''modelFor'' else succeed ()) s"
  from assms obtain x s1 where
    inner: "modelFactoryFor env m (snd ?g) = (Inr x, s1)"
    and rest: "(if \<not> truthy (getprop (heap s1) (klass (heap s1) x) (Name ''isModel''))
         then andThen (alloc (ShimModelClass StoreRef m)) (\<lambda>a. succeed (Object a)) s1
         else succeed (klass (heap s1) x) s1) = (Inr v, s')"
    by (auto simp add: modelFor_def andThen_def assert_def succeed_def throw_def
          split: prod.splits sum.splits if_splits)
  from modelFactoryFor_success [OF inner] obtain f where x: "x = Object f" by blast
  from rest have "if truthy (getprop (heap s1) (klass (heap s1) (Object f)) (Name ''isModel''))
              then v = klass (heap s1) (Object f) \<and> s' = s1
              else v = Object (length (heap s1))
                 \<and> s' = s1\<lparr>heap := heap s1 @ [ShimModelClass StoreRef m]\<rparr>"
    unfolding x by (auto simp add: andThen_def alloc_def succeed_def split: if_splits)
  with inner x show ?thesis by blast
qed

lemma modelFor_shim_again:
  assumes inner: "modelFactoryFor env m s0 = (Inr (Object f), s1)"
      and shim: "\<not> truthy (getprop (heap s1) (klass (heap s1) (Object f)) (Name ''isModel''))"
  shows "fst (modelFor env m (s1\<lparr>heap := heap s1 @ [ShimModelClass StoreRef m]\<rparr>))
           = Inr (Object (Suc (length (heap s1))))
       \<and> heap (snd (modelFor env m (s1\<lparr>heap := heap s1 @ [ShimModelClass StoreRef m]\<rparr>)))
           = heap s1 @ [ShimModelClass StoreRef m, ShimModelClass StoreRef m]
       \<and> modelFactoryCache (snd (modelFor env m (s1\<lparr>heap := heap s1 @ [ShimModelClass StoreRef m]\<rparr>)))
           = modelFactoryCache s1
       \<and> attributesDefCache (snd (modelFor env m (s1\<lparr>heap := heap s1 @ [ShimModelClass StoreRef m]\<rparr>)))
           = attributesDefCache s1
       \<and> relationshipsDefCache (snd (modelFor env m (s1\<lparr>heap := heap s1 @ [ShimModelClass StoreRef m]\<rparr>)))
           = relationshipsDefCache s1"
proof -
  let ?shim = "ShimModelClass StoreRef m"
  let ?s' = "s1\<lparr>heap := heap s1 @ [?shim]\<rparr>"
  let ?G = "\<lambda>meth. if DEBUG env then assertDestroyedStoreOnly env meth else succeed ()"
  let ?g = "snd (?G ''modelFor'' ?s')"
  let ?h = "snd (?G ''_modelFactoryFor'' ?g)"
  from modelFactoryFor_success [OF inner] obtain n where
    n: "normalizeModelName env m = Inr n" and cached: "modelFactoryCache s1 n = Some f"
    and ok0: "DEBUG env \<longrightarrow> isPresent env m \<and> typeof m = ''string''
                \<and> \<not> (isDestroyed s0 \<and> truthy (shouldAssertMethodCallsOnDestroyedStore s0))"
    by blast
  from modelFactoryFor_frame [OF inner] ok0 have
    ok: "DEBUG env \<longrightarrow> isPresent env m \<and> typeof m = ''string''
                \<and> \<not> (isDestroyed s1 \<and> truthy (shouldAssertMethodCallsOnDestroyedStore s1))"
    by simp
  have g_ok: "?G ''modelFor'' ?s' = (Inr (), ?g)"
    using ok by (simp add: guardOnly_result)
  have g_fields: "heap ?g = heap s1 @ [?shim]" "modelFactoryCache ?g = modelFactoryCache s1"
    "isDestroyed ?g = isDestroyed s1"
    "shouldAssertMethodCallsOnDestroyedStore ?g = shouldAssertMethodCallsOnDestroyedStore s1"
    "attributesDefCache ?g = attributesDefCache s1" "relationshipsDefCache ?g = relationshipsDefCache s1"
    by (simp_all add: guardOnly_fields)
  have hit: "modelFactoryFor env m ?g = (Inr (Object f), ?h)"
  proof (rule modelFactoryFor_hit [where n = n])
    show "normalizeModelName env m = Inr n" by (rule n)
    show "modelFactoryCache ?g n = Some f" using cached by (simp only: g_fields)
    show "DEBUG env \<longrightarrow> isPresent env m \<and> typeof m = ''string''
            \<and> \<not> (isDestroyed ?g \<and> truthy (shouldAssertMethodCallsOnDestroyedStore ?g))"
      using ok by (simp only: g_fields)
  qed
  have h_fields: "heap ?h = heap s1 @ [?shim]" "modelFactoryCache ?h = modelFactoryCache s1"
    "attributesDefCache ?h = attributesDefCache s1" "relationshipsDefCache ?h = relationshipsDefCache s1"
    by (simp_all add: guardOnly_fields)
  have valid: "DEBUG env \<longrightarrow> isPresent env m \<and> typeof m = ''string''"
    using ok by simp
  have a1: "assert env ''You need to pass a model name to the store's modelFor method''
              (isPresent env m) ?g = (Inr (), ?g)"
    by (rule assert_pass) (use valid in simp)
  have a2: "assert env
              (''Passing classes to store methods has been removed. Please pass a dasherized string instead of ''
                 @ ToString m)
              (typeof m = ''string'') ?g = (Inr (), ?g)"
    by (rule assert_pass) (use valid in simp)
  have no_model: "\<not> truthy (getprop (heap ?h) (klass (heap ?h) (Object f)) (Name ''isModel''))"
    using shim by (simp add: h_fields klass_append_shim getprop_append_shim)
  have "modelFor env m ?s' =
          (if \<not> truthy (getprop (heap ?h) (klass (heap ?h) (Object f)) (Name ''isModel''))
           then andThen (alloc ?shim) (\<lambda>a. succeed (Object a)) ?h
           else succeed (klass (heap ?h) (Object f)) ?h)"
    unfolding modelFor_def
    by (simp only: andThen_Inr [of "?G ''modelFor''" ?s', OF g_ok]
          andThen_Inr [of "assert env ''You need to pass a model name to the store's modelFor method'' (isPresent env m)" ?g, OF a1]
          andThen_Inr [of "assert env
              (''Passing classes to store methods has been removed. Please pass a dasherized string instead of ''
                 @ ToString m)
              (typeof m = ''string'')" ?g, OF a2]
          andThen_Inr [of "modelFactoryFor env m" ?g, OF hit])
  with no_model have "modelFor env m ?s' = andThen (alloc ?shim) (\<lambda>a. succeed (Object a)) ?h"
    by (simp only: simp_thms if_True)
  then show ?thesis
    by (simp add: andThen_def alloc_def succeed_def h_fields)
qed

lemma modelFor_frame:
  assumes "modelFor env m s = (r, s')"
  shows "attributesDefCache s' = attributesDefCache s
       \<and> relationshipsDefCache s' = relationshipsDefCache s
       \<and> length (heap s) \<le> length (heap s')"
proof -
  let ?g = "(if DEBUG env then assertDestroyedStoreOnly env ''modelFor'' else succeed ()) s"
  have inner: "\<And>x s1. modelFactoryFor env m (snd ?g) = (x, s1) \<Longrightarrow>
     attributesDefCache s1 = attributesDefCache s \<and> relationshipsDefCache s1 = relationshipsDefCache s
     \<and> heap s1 = heap s"
    by (drule modelFactoryFor_frame) (simp add: guardOnly_fields)
  show ?thesis
  proof (cases "modelFactoryFor env m (snd ?g)")
    case (Pair x s1)
    from inner [OF Pair] assms Pair show ?thesis
      by (auto simp add: modelFor_def andThen_def assert_def succeed_def throw_def alloc_def
            guardOnly_result
            split: prod.splits sum.splits if_splits)
  qed
qed

lemma modelFactoryFor_cache:
  assumes "modelFactoryFor env m s = (Inr v, s')" and "normalizeModelName env m = Inr n"
  shows "\<exists>f. modelFactoryCache s' = (modelFactoryCache s)(n \<mapsto> f)"
  using assms
  by (auto simp add: modelFactoryFor_def andThen_def guardOnly_result assert_def getModelFactory_def
        succeed_def throw_def lift_def
        split: if_splits sum.splits option.splits prod.splits)
     (metis map_upd_triv)+

lemma modelFor_cache:
  assumes call: "modelFor env m s = (Inr v, s')" and n: "normalizeModelName env m = Inr n"
  shows "\<exists>f. modelFactoryCache s' = (modelFactoryCache s)(n \<mapsto> f)"
proof -
  from modelFor_success [OF call] obtain f s1 where
    inner: "modelFactoryFor env m
             (snd ((if DEBUG env then assertDestroyedStoreOnly env ''modelFor'' else succeed ()) s))
             = (Inr (Object f), s1)"
    and res: "modelFactoryCache s' = modelFactoryCache s1"
    by (auto split: if_splits)
  from modelFactoryFor_cache [OF inner n] res show ?thesis
    by (simp add: guardOnly_fields)
qed

lemma setprop_frame:
  "fst (setprop a k v s) = Inr ()
   \<and> length (heap (snd (setprop a k v s))) = length (heap s)
   \<and> attributesDefCache (snd (setprop a k v s)) = attributesDefCache s
   \<and> modelFactoryCache (snd (setprop a k v s)) = modelFactoryCache s"
  by (simp add: setprop_def split: option.splits obj.splits)

lemma forEach_setprop_frame:
  "forEach es (\<lambda>meta name. setprop a (Name name) meta) s = (r, s') \<Longrightarrow>
     r = Inr () \<and> length (heap s') = length (heap s)
     \<and> attributesDefCache s' = attributesDefCache s
     \<and> modelFactoryCache s' = modelFactoryCache s"
proof (induction es arbitrary: s)
  case Nil
  then show ?case by (simp add: succeed_def)
next
  case (Cons e es)
  obtain k v where e: "e = (k, v)" by (cases e)
  define t where "t = snd (setprop a (Name k) v s)"
  have t: "setprop a (Name k) v s = (Inr (), t)"
    and tf: "length (heap t) = length (heap s)" "attributesDefCache t = attributesDefCache s"
      "modelFactoryCache t = modelFactoryCache s"
    using setprop_frame [of a "Name k" v s] by (simp_all add: t_def prod_eq_iff)
  from Cons.prems have "forEach es (\<lambda>meta name. setprop a (Name name) meta) t = (r, s')"
    by (simp add: e andThen_def t)
  from Cons.IH [OF this] tf show ?case by simp
qed

lemma attributesDefinitionFor_cached:
  assumes legacy: "\<not> CUSTOM_MODEL_CLASS env"
      and call: "attributesDefinitionFor env modelName s = (Inr a, s1)"
  shows "a \<noteq> Undefined \<and> attributesDefCache s1 modelName = Some a"
proof (cases "cacheGet (attributesDefCache s) modelName = Undefined")
  case False
  with legacy call have "a = cacheGet (attributesDefCache s) modelName" "s1 = s"
    by (auto simp add: attributesDefinitionFor_def Let_def)
  with False show ?thesis
    by (auto simp add: cacheGet_def split: option.splits)
next
  case True
  with legacy call show ?thesis
    by (auto simp add: attributesDefinitionFor_def Let_def andThen_def split: prod.splits sum.splits)
qed

lemma attributesDefinitionFor_hit:
  assumes legacy: "\<not> CUSTOM_MODEL_CLASS env"
      and cached: "attributesDefCache s modelName = Some a" and a: "a \<noteq> Undefined"
  shows "attributesDefinitionFor env modelName s = (Inr a, s)"
  using assms by (simp add: attributesDefinitionFor_def Let_def cacheGet_def)

lemma attributesDefinitionFor_miss:
  assumes legacy: "\<not> CUSTOM_MODEL_CLASS env"
      and miss: "attributesDefCache s modelName = None"
      and call: "attributesDefinitionFor env modelName s = (Inr a, s')"
  shows "\<exists>x. a = Object x \<and> length (heap s) \<le> x \<and> x < length (heap s')
            \<and> attributesDefCache s' = (attributesDefCache s)(modelName \<mapsto> Object x)"
    and "normalizeModelName env (Str modelName) = Inr n \<Longrightarrow>
           \<exists>f. modelFactoryCache s' = (modelFactoryCache s)(n \<mapsto> f)"
proof -
  from legacy miss call obtain modelClass s1 entries s3 where
    cls: "modelFor env (Str modelName) s = (Inr modelClass, s1)"
    and loop: "forEach entries (\<lambda>meta name. setprop (length (heap s1)) (Name name) meta)
                 (s1\<lparr>heap := heap s1 @ [JSObject Map.empty]\<rparr>) = (Inr (), s3)"
    and res: "a = Object (length (heap s1))"
       "s' = s3\<lparr>attributesDefCache := (attributesDefCache s3)(modelName \<mapsto> Object (length (heap s1)))\<rparr>"
    by (auto simp add: attributesDefinitionFor_def Let_def cacheGet_def andThen_def lift_def alloc_def
          split: prod.splits sum.splits)
  from modelFor_frame [OF cls] forEach_setprop_frame [OF loop] res
  show "\<exists>x. a = Object x \<and> length (heap s) \<le> x \<and> x < length (heap s')
            \<and> attributesDefCache s' = (attributesDefCache s)(modelName \<mapsto> Object x)"
    by simp
  assume "normalizeModelName env (Str modelName) = Inr n"
  from modelFor_cache [OF cls this] forEach_setprop_frame [OF loop] res
  show "\<exists>f. modelFactoryCache s' = (modelFactoryCache s)(n \<mapsto> f)"
    by simp
qed

lemma relationshipsDefinitionFor_miss:
  assumes legacy: "\<not> CUSTOM_MODEL_CLASS env"
      and miss: "relationshipsDefCache s modelName = None"
      and call: "relationshipsDefinitionFor env modelName s = (Inr r, s')"
  shows "relationshipsDefCache s' = (relationshipsDefCache s)(modelName \<mapsto> r)"
    and "normalizeModelName env (Str modelName) = Inr n \<Longrightarrow>
           \<exists>f. modelFactoryCache s' = (modelFactoryCache s)(n \<mapsto> f)"
proof -
  from legacy miss call obtain modelClass s1 where
    cls: "modelFor env (Str modelName) s = (Inr modelClass, s1)"
    and res: "s' = s1\<lparr>relationshipsDefCache := (relationshipsDefCache s1)(modelName \<mapsto> r)\<rparr>"
    by (auto simp add: relationshipsDefinitionFor_def Let_def cacheGet_def andThen_def lift_def
          split: prod.splits sum.splits)
  from modelFor_frame [OF cls] res
  show "relationshipsDefCache s' = (relationshipsDefCache s)(modelName \<mapsto> r)"
    by simp
  assume "normalizeModelName env (Str modelName) = Inr n"
  from modelFor_cache [OF cls this] res
  show "\<exists>f. modelFactoryCache s' = (modelFactoryCache s)(n \<mapsto> f)"
    by simp
qed






lemma ignores_lift_heap: "ignoresRelationshipsDefCache (\<lambda>s. lift (F (heap s)) s)"
  by (simp add: ignoresRelationshipsDefCache_def lift_def)



lemma ignores_alloc: "ignoresRelationshipsDefCache (alloc ob)"
  by (simp add: ignoresRelationshipsDefCache_def alloc_def)








subsection \<open>The factory cache\<close>

text \<open>
  C1: two type names that normalize to the same name resolve to the same factory
  reference. Once \<^verbatim>\<open>_modelFactoryFor\<close> has returned a factory for \<open>t1\<close>, a call for any
  valid \<open>t2\<close> with the same normalized name returns that very reference, whatever the
  environment's registry holds by then (the answer comes from the cache, not from a new
  lookup), and it leaves the store as it was, apart from a deprecation warning.
\<close>

theorem modelFactoryFor_same_reference:
  assumes first: "modelFactoryFor env (Str t1) s = (Inr factory, s1)"
      and same: "normalizeModelName env (Str t2) = normalizeModelName env (Str t1)"
      and valid: "isPresent env (Str t2)"
  shows "\<exists>w. modelFactoryFor env (Str t2) (s1\<lparr>registry := r\<rparr>)
               = (Inr factory, s1\<lparr>registry := r, warnings := w\<rparr>)"
proof -
  from modelFactoryFor_success [OF first] obtain n f where
    n: "normalizeModelName env (Str t1) = Inr n" and f: "factory = Object f"
    and cached: "modelFactoryCache s1 n = Some f"
    and dbg: "DEBUG env \<longrightarrow> \<not> (isDestroyed s \<and> truthy (shouldAssertMethodCallsOnDestroyedStore s))"
    by blast
  from modelFactoryFor_frame [OF first] dbg have
    alive: "DEBUG env \<longrightarrow> \<not> (isDestroyed s1 \<and> truthy (shouldAssertMethodCallsOnDestroyedStore s1))"
    by simp
  let ?s = "s1\<lparr>registry := r\<rparr>"
  let ?g = "snd ((if DEBUG env then assertDestroyedStoreOnly env ''_modelFactoryFor'' else succeed ()) ?s)"
  have hit: "modelFactoryFor env (Str t2) ?s = (Inr (Object f), ?g)"
  proof (rule modelFactoryFor_hit [where n = n])
    show "normalizeModelName env (Str t2) = Inr n" using n same by simp
    show "modelFactoryCache ?s n = Some f" using cached by simp
    show "DEBUG env \<longrightarrow> isPresent env (Str t2) \<and> typeof (Str t2) = ''string''
            \<and> \<not> (isDestroyed ?s \<and> truthy (shouldAssertMethodCallsOnDestroyedStore ?s))"
      using valid alive by simp
  qed
  have "?g = s1\<lparr>registry := r, warnings := warnings ?g\<rparr>"
    by (simp add: guardOnly_result)
  with hit f have "modelFactoryFor env (Str t2) ?s
      = (Inr factory, s1\<lparr>registry := r, warnings := warnings ?g\<rparr>)"
    by simp
  then show ?thesis ..
qed

theorem modelFactoryFor_same_reference_witness:
  "modelFactoryFor (exampleEnv True False) (Str ''Person'') exampleStore
     = (Inr (Object 0), exampleStore\<lparr>modelFactoryCache := [''person'' \<mapsto> 0]\<rparr>)
   \<and> normalizeModelName (exampleEnv True False) (Str ''person'')
     = normalizeModelName (exampleEnv True False) (Str ''Person'')
   \<and> isPresent (exampleEnv True False) (Str ''person'')
   \<and> fst (modelFactoryFor (exampleEnv True False) (Str ''person'')
            (exampleStore\<lparr>modelFactoryCache := [''person'' \<mapsto> 0], registry := Map.empty\<rparr>))
     = Inr (Object 0)"
proof -
  have first: "modelFactoryFor (exampleEnv True False) (Str ''Person'') exampleStore
     = (Inr (Object 0), exampleStore\<lparr>modelFactoryCache := [''person'' \<mapsto> 0]\<rparr>)"
    by (simp add: modelFactoryFor_def andThen_def exampleEnv_def exampleStore_def
          assertDestroyedStoreOnly_def deprecate_def assert_def getModelFactory_def
          succeed_def throw_def lift_def)
  have same: "normalizeModelName (exampleEnv True False) (Str ''person'')
     = normalizeModelName (exampleEnv True False) (Str ''Person'')"
    by (simp add: exampleEnv_def)
  have valid: "isPresent (exampleEnv True False) (Str ''person'')"
    by (simp add: exampleEnv_def)
  from modelFactoryFor_same_reference [OF first same valid, of Map.empty]
  show ?thesis using first same valid by auto
qed

text \<open>
  C4, as amended: for a valid type name whose normalized name has no entry in the factory
  cache and no factory in the environment, \<^verbatim>\<open>_modelFactoryFor\<close> throws the error
  \<^verbatim>\<open>No model was found for '<normalized name>'\<close>, and the factory cache is left as it was,
  with no entry for that name. The store is one the guard lets pass: not a destroyed one
  with the strict flag in a debug build. A production build checks neither the name nor
  the store.
\<close>

theorem modelFactoryFor_not_found:
  assumes name: "normalizeModelName env (Str t) = Inr n"
      and absent: "registry s n = None"
      and miss: "modelFactoryCache s n = None"
      and valid: "DEBUG env \<longrightarrow> isPresent env (Str t)"
      and alive: "\<not> (DEBUG env \<and> isDestroyed s \<and> truthy (shouldAssertMethodCallsOnDestroyedStore s))"
  shows "fst (modelFactoryFor env (Str t) s) = Inl (EmberError (''No model was found for '' @ [CHR 0x27] @ n @ [CHR 0x27]))
       \<and> modelFactoryCache (snd (modelFactoryFor env (Str t) s)) = modelFactoryCache s
       \<and> modelFactoryCache (snd (modelFactoryFor env (Str t) s)) n = None"
  using name absent miss valid alive
  by (auto simp add: modelFactoryFor_def andThen_def guardOnly_result assert_def getModelFactory_def
        succeed_def throw_def lift_def)

theorem modelFactoryFor_not_found_witness:
  "normalizeModelName (exampleEnv True False) (Str ''unregistered-type'') = Inr ''unregistered-type''
   \<and> registry exampleStore ''unregistered-type'' = None
   \<and> modelFactoryCache exampleStore ''unregistered-type'' = None
   \<and> DEBUG (exampleEnv True False)
   \<and> isPresent (exampleEnv True False) (Str ''unregistered-type'')
   \<and> \<not> (DEBUG (exampleEnv True False) \<and> isDestroyed exampleStore
          \<and> truthy (shouldAssertMethodCallsOnDestroyedStore exampleStore))
   \<and> fst (modelFactoryFor (exampleEnv True False) (Str ''unregistered-type'') exampleStore)
       = Inl (EmberError (''No model was found for '' @ [CHR 0x27] @ ''unregistered-type'' @ [CHR 0x27]))
   \<and> modelFactoryCache (snd (modelFactoryFor (exampleEnv True False) (Str ''unregistered-type'') exampleStore))
       = modelFactoryCache exampleStore
   \<and> modelFactoryCache (snd (modelFactoryFor (exampleEnv True False) (Str ''unregistered-type'') exampleStore))
        ''unregistered-type'' = None"
proof -
  have name: "normalizeModelName (exampleEnv True False) (Str ''unregistered-type'') = Inr ''unregistered-type''"
    by (simp add: exampleEnv_def)
  have absent: "registry exampleStore ''unregistered-type'' = None"
    by (simp add: exampleStore_def)
  have miss: "modelFactoryCache exampleStore ''unregistered-type'' = None"
    by (simp add: exampleStore_def)
  have debug: "DEBUG (exampleEnv True False)"
    by (simp add: exampleEnv_def)
  have present: "isPresent (exampleEnv True False) (Str ''unregistered-type'')"
    by (simp add: exampleEnv_def)
  then have valid: "DEBUG (exampleEnv True False) \<longrightarrow> isPresent (exampleEnv True False) (Str ''unregistered-type'')"
    by simp
  have alive: "\<not> (DEBUG (exampleEnv True False) \<and> isDestroyed exampleStore
          \<and> truthy (shouldAssertMethodCallsOnDestroyedStore exampleStore))"
    by (simp add: exampleStore_def)
  note not_found = modelFactoryFor_not_found [OF name absent miss valid alive]
  show ?thesis
    by (intro conjI;
        (rule name absent miss debug present alive not_found [THEN conjunct1]
           not_found [THEN conjunct2, THEN conjunct1] not_found [THEN conjunct2, THEN conjunct2]))
qed

text \<open>
  The claim C4 as first stated asks only that the environment has no factory for the
  name. A name resolved earlier and unregistered since is not found in the environment
  and still resolves: the call returns the cached factory and throws nothing. And on a
  destroyed store with the strict flag, in a debug build, the guard throws its own error
  before any lookup.
\<close>

theorem modelFactoryFor_stale_entry_counterexample:
  "normalizeModelName (exampleEnv True False) (Str ''person'') = Inr ''person''
   \<and> isPresent (exampleEnv True False) (Str ''person'')
   \<and> registry (exampleStore\<lparr>modelFactoryCache := [''person'' \<mapsto> 0], registry := Map.empty\<rparr>) ''person'' = None
   \<and> modelFactoryFor (exampleEnv True False) (Str ''person'')
        (exampleStore\<lparr>modelFactoryCache := [''person'' \<mapsto> 0], registry := Map.empty\<rparr>)
       = (Inr (Object 0), exampleStore\<lparr>modelFactoryCache := [''person'' \<mapsto> 0], registry := Map.empty\<rparr>)
   \<and> registry exampleStore ''unregistered-type'' = None
   \<and> fst (modelFactoryFor (exampleEnv True False) (Str ''unregistered-type'')
            (exampleStore\<lparr>isDestroyed := True, shouldAssertMethodCallsOnDestroyedStore := Boolean True\<rparr>))
       = Inl (AssertionFailed
                ''Attempted to call store._modelFactoryFor(), but the store instance has already been destroyed.'')"
  by (simp add: eval_defs)

subsection \<open>Model classes and stand-ins\<close>

text \<open>
  C8: when \<^verbatim>\<open>modelFor\<close> returns, the factory \<open>f\<close> of the type has been resolved, and the
  result is the class of \<open>f\<close> itself when that class has a truthy \<^verbatim>\<open>isModel\<close>; otherwise it
  is a \<^verbatim>\<open>ShimModelClass\<close> just allocated, and nothing but the heap differs from the state
  the factory resolution left: no cache holds the stand-in. A second call for the same
  name then returns another new stand-in, not the first one, and again leaves every cache
  as it was.
\<close>

theorem modelFor_class_or_fresh_shim:
  assumes call: "modelFor env modelName s = (Inr v, s')"
  shows "\<exists>f s1.
           modelFactoryFor env modelName
             (snd ((if DEBUG env then assertDestroyedStoreOnly env ''modelFor'' else succeed ()) s))
             = (Inr (Object f), s1)
         \<and> (if truthy (getprop (heap s1) (klass (heap s1) (Object f)) (Name ''isModel''))
            then v = klass (heap s1) (Object f) \<and> s' = s1
            else v = Object (length (heap s1))
               \<and> s' = s1\<lparr>heap := heap s1 @ [ShimModelClass StoreRef modelName]\<rparr>
               \<and> fst (modelFor env modelName s') = Inr (Object (Suc (length (heap s1))))
               \<and> fst (modelFor env modelName s') \<noteq> Inr v
               \<and> heap (snd (modelFor env modelName s'))
                    = heap s1 @ [ShimModelClass StoreRef modelName, ShimModelClass StoreRef modelName]
               \<and> modelFactoryCache (snd (modelFor env modelName s')) = modelFactoryCache s1
               \<and> attributesDefCache (snd (modelFor env modelName s')) = attributesDefCache s1
               \<and> relationshipsDefCache (snd (modelFor env modelName s')) = relationshipsDefCache s1)"
proof -
  from modelFor_success [OF call] obtain f s1 where
    inner: "modelFactoryFor env modelName
             (snd ((if DEBUG env then assertDestroyedStoreOnly env ''modelFor'' else succeed ()) s))
             = (Inr (Object f), s1)"
    and res: "if truthy (getprop (heap s1) (klass (heap s1) (Object f)) (Name ''isModel''))
              then v = klass (heap s1) (Object f) \<and> s' = s1
              else v = Object (length (heap s1))
                 \<and> s' = s1\<lparr>heap := heap s1 @ [ShimModelClass StoreRef modelName]\<rparr>"
    by blast
  show ?thesis
  proof (cases "truthy (getprop (heap s1) (klass (heap s1) (Object f)) (Name ''isModel''))")
    case True
    with inner res show ?thesis by auto
  next
    case False
    with res have v: "v = Object (length (heap s1))"
      and s': "s' = s1\<lparr>heap := heap s1 @ [ShimModelClass StoreRef modelName]\<rparr>"
      by simp_all
    note again = modelFor_shim_again [OF inner False]
    from again have "fst (modelFor env modelName s') \<noteq> Inr v"
      unfolding s' v by simp
    with again inner False v s' show ?thesis
      by (intro exI [of _ f] exI [of _ s1]) simp
  qed
qed

theorem modelFor_class_or_fresh_shim_witness:
  "fst (modelFor (exampleEnv True False) (Str ''person'') exampleStore) = Inr (Object 1)
   \<and> fst (modelFor (exampleEnv True False) (Str ''comment'') exampleStore) = Inr (Object 13)
   \<and> fst (modelFor (exampleEnv True False) (Str ''comment'')
            (snd (modelFor (exampleEnv True False) (Str ''comment'') exampleStore))) = Inr (Object 14)
   \<and> modelFactoryCache (snd (modelFor (exampleEnv True False) (Str ''comment'') exampleStore))
       = [''comment'' \<mapsto> 5]
   \<and> attributesDefCache (snd (modelFor (exampleEnv True False) (Str ''comment'') exampleStore)) = Map.empty
   \<and> relationshipsDefCache (snd (modelFor (exampleEnv True False) (Str ''comment'') exampleStore)) = Map.empty"
proof -
  have model: "fst (modelFor (exampleEnv True False) (Str ''person'') exampleStore) = Inr (Object 1)"
    by (simp add: eval_defs)
  have shim: "fst (modelFor (exampleEnv True False) (Str ''comment'') exampleStore) = Inr (Object 13)"
    by (simp add: eval_defs)
  then have call: "modelFor (exampleEnv True False) (Str ''comment'') exampleStore
      = (Inr (Object 13), snd (modelFor (exampleEnv True False) (Str ''comment'') exampleStore))"
    by (metis prod.collapse)
  have caches: "modelFactoryCache (snd (modelFor (exampleEnv True False) (Str ''comment'') exampleStore))
       = [''comment'' \<mapsto> 5]"
    "attributesDefCache (snd (modelFor (exampleEnv True False) (Str ''comment'') exampleStore)) = Map.empty"
    "relationshipsDefCache (snd (modelFor (exampleEnv True False) (Str ''comment'') exampleStore)) = Map.empty"
    by (simp_all add: eval_defs)
  have no_model: "\<not> truthy (getprop
      (heap (snd (modelFor (exampleEnv True False) (Str ''comment'') exampleStore)))
      (Object 13) (Name ''isModel''))"
    by (simp add: eval_defs)
  from modelFor_class_or_fresh_shim [OF call] obtain f s1 where
    cases: "if truthy (getprop (heap s1) (klass (heap s1) (Object f)) (Name ''isModel''))
     then Object 13 = klass (heap s1) (Object f)
        \<and> snd (modelFor (exampleEnv True False) (Str ''comment'') exampleStore) = s1
     else Object 13 = Object (length (heap s1))
        \<and> snd (modelFor (exampleEnv True False) (Str ''comment'') exampleStore)
            = s1\<lparr>heap := heap s1 @ [ShimModelClass StoreRef (Str ''comment'')]\<rparr>
        \<and> fst (modelFor (exampleEnv True False) (Str ''comment'')
                 (snd (modelFor (exampleEnv True False) (Str ''comment'') exampleStore)))
            = Inr (Object (Suc (length (heap s1))))
        \<and> fst (modelFor (exampleEnv True False) (Str ''comment'')
                 (snd (modelFor (exampleEnv True False) (Str ''comment'') exampleStore)))
            \<noteq> Inr (Object 13)
        \<and> heap (snd (modelFor (exampleEnv True False) (Str ''comment'')
                 (snd (modelFor (exampleEnv True False) (Str ''comment'') exampleStore))))
            = heap s1 @ [ShimModelClass StoreRef (Str ''comment''), ShimModelClass StoreRef (Str ''comment'')]
        \<and> modelFactoryCache (snd (modelFor (exampleEnv True False) (Str ''comment'')
                 (snd (modelFor (exampleEnv True False) (Str ''comment'') exampleStore))))
            = modelFactoryCache s1
        \<and> attributesDefCache (snd (modelFor (exampleEnv True False) (Str ''comment'')
                 (snd (modelFor (exampleEnv True False) (Str ''comment'') exampleStore))))
            = attributesDefCache s1
        \<and> relationshipsDefCache (snd (modelFor (exampleEnv True False) (Str ''comment'')
                 (snd (modelFor (exampleEnv True False) (Str ''comment'') exampleStore))))
            = relationshipsDefCache s1"
    by blast
  have again: "fst (modelFor (exampleEnv True False) (Str ''comment'')
            (snd (modelFor (exampleEnv True False) (Str ''comment'') exampleStore))) = Inr (Object 14)"
  proof (cases "truthy (getprop (heap s1) (klass (heap s1) (Object f)) (Name ''isModel''))")
    case True
    with cases have "Object 13 = klass (heap s1) (Object f)"
      and "snd (modelFor (exampleEnv True False) (Str ''comment'') exampleStore) = s1"
      by simp_all
    with True no_model show ?thesis by simp
  next
    case False
    note shim_case = cases [unfolded if_not_P [OF False]]
    from shim_case [THEN conjunct1] have "length (heap s1) = 13"
      by simp
    with shim_case [THEN conjunct2, THEN conjunct2, THEN conjunct1] show ?thesis
      by simp
  qed
  show ?thesis
    by (intro conjI; (rule model shim again caches))
qed

subsection \<open>The caches of attribute and relationship definitions\<close>

text \<open>
  C2: in legacy mode, once \<^verbatim>\<open>_attributesDefinitionFor\<close> has returned a mapping for a name,
  a later call for that name returns the same reference and changes nothing, in every
  state whose attribute cache still has the entry for the name, whatever happened to the
  heap (the class metadata) in between and whatever \<^verbatim>\<open>get\<close> would answer now.
\<close>

theorem attributesDefinitionFor_memoized:
  assumes legacy: "\<not> CUSTOM_MODEL_CLASS env"
      and first: "attributesDefinitionFor env modelName s = (Inr attributes, s1)"
      and legacy': "\<not> CUSTOM_MODEL_CLASS env'"
      and entry: "attributesDefCache s2 modelName = attributesDefCache s1 modelName"
  shows "attributesDefinitionFor env' modelName s2 = (Inr attributes, s2)"
proof -
  from attributesDefinitionFor_cached [OF legacy first]
  have "attributes \<noteq> Undefined" "attributesDefCache s1 modelName = Some attributes"
    by simp_all
  with entry legacy' show ?thesis
    by (simp add: attributesDefinitionFor_hit)
qed

theorem attributesDefinitionFor_memoized_witness:
  "\<not> CUSTOM_MODEL_CLASS (exampleEnv True False)
   \<and> fst (attributesDefinitionFor (exampleEnv True False) ''person'' exampleStore) = Inr (Object 13)
   \<and> attributesDefinitionFor (exampleEnv True False) ''person''
        ((snd (attributesDefinitionFor (exampleEnv True False) ''person'' exampleStore))
           \<lparr>heap := exampleHeap[2 := JSMap []]\<rparr>)
      = (Inr (Object 13),
         (snd (attributesDefinitionFor (exampleEnv True False) ''person'' exampleStore))
           \<lparr>heap := exampleHeap[2 := JSMap []]\<rparr>)"
proof -
  have legacy: "\<not> CUSTOM_MODEL_CLASS (exampleEnv True False)"
    by (simp add: exampleEnv_def)
  have result: "fst (attributesDefinitionFor (exampleEnv True False) ''person'' exampleStore) = Inr (Object 13)"
    by (simp add: eval_defs)
  then have first: "attributesDefinitionFor (exampleEnv True False) ''person'' exampleStore
      = (Inr (Object 13), snd (attributesDefinitionFor (exampleEnv True False) ''person'' exampleStore))"
    by (metis prod.collapse)
  show ?thesis
    using legacy result
      attributesDefinitionFor_memoized [OF legacy first legacy,
        of "(snd (attributesDefinitionFor (exampleEnv True False) ''person'' exampleStore))
              \<lparr>heap := exampleHeap[2 := JSMap []]\<rparr>"]
    by simp
qed

text \<open>
  C6: in legacy mode, for a name not yet cached whose model class has no
  \<^verbatim>\<open>relationshipsObject\<close> (a falsy one), \<^verbatim>\<open>_relationshipsDefinitionFor\<close> returns \<^verbatim>\<open>null\<close> on the
  first call and stores it: the cache, which read \<^verbatim>\<open>undefined\<close> for the name before, reads
  \<^verbatim>\<open>null\<close> after. The next call, and every call in a state that has this entry, returns
  \<^verbatim>\<open>null\<close> and changes nothing.
\<close>

theorem relationshipsDefinitionFor_none:
  assumes legacy: "\<not> CUSTOM_MODEL_CLASS env"
      and miss: "relationshipsDefCache s modelName = None"
      and cls: "modelFor env (Str modelName) s = (Inr modelClass, s1)"
      and none: "get env (heap s1) modelClass ''relationshipsObject'' = Inr r" "\<not> truthy r"
      and legacy': "\<not> CUSTOM_MODEL_CLASS env'"
      and entry: "relationshipsDefCache s2 modelName = Some Null"
  shows "relationshipsDefinitionFor env modelName s
           = (Inr Null, s1\<lparr>relationshipsDefCache := (relationshipsDefCache s1)(modelName \<mapsto> Null)\<rparr>)
       \<and> cacheGet (relationshipsDefCache s) modelName = Undefined
       \<and> cacheGet (relationshipsDefCache (snd (relationshipsDefinitionFor env modelName s))) modelName = Null
       \<and> relationshipsDefinitionFor env' modelName (snd (relationshipsDefinitionFor env modelName s))
           = (Inr Null, snd (relationshipsDefinitionFor env modelName s))
       \<and> relationshipsDefinitionFor env' modelName s2 = (Inr Null, s2)"
proof -
  have first: "relationshipsDefinitionFor env modelName s
           = (Inr Null, s1\<lparr>relationshipsDefCache := (relationshipsDefCache s1)(modelName \<mapsto> Null)\<rparr>)"
    using legacy miss cls none
    by (simp add: relationshipsDefinitionFor_def Let_def cacheGet_def andThen_def lift_def)
  have hit: "\<And>t. relationshipsDefCache t modelName = Some Null \<Longrightarrow>
               relationshipsDefinitionFor env' modelName t = (Inr Null, t)"
    using legacy' by (simp add: relationshipsDefinitionFor_def Let_def cacheGet_def)
  show ?thesis
    using first miss entry by (simp add: hit cacheGet_def)
qed

theorem relationshipsDefinitionFor_none_witness:
  "\<not> CUSTOM_MODEL_CLASS (exampleEnv True False)
   \<and> relationshipsDefCache exampleStore ''tag'' = None
   \<and> modelFor (exampleEnv True False) (Str ''tag'') exampleStore
       = (Inr (Object 10), exampleStore\<lparr>modelFactoryCache := [''tag'' \<mapsto> 9]\<rparr>)
   \<and> get (exampleEnv True False) (heap (exampleStore\<lparr>modelFactoryCache := [''tag'' \<mapsto> 9]\<rparr>))
         (Object 10) ''relationshipsObject'' = Inr Undefined
   \<and> \<not> truthy Undefined
   \<and> fst (relationshipsDefinitionFor (exampleEnv True False) ''tag'' exampleStore) = Inr Null
   \<and> relationshipsDefCache (snd (relationshipsDefinitionFor (exampleEnv True False) ''tag'' exampleStore)) ''tag''
       = Some Null
   \<and> fst (relationshipsDefinitionFor (exampleEnv True False) ''tag''
            (snd (relationshipsDefinitionFor (exampleEnv True False) ''tag'' exampleStore))) = Inr Null
   \<and> relationshipsDefinitionFor (exampleEnv True False) ''tag''
         (exampleStore\<lparr>heap := [], relationshipsDefCache := [''tag'' \<mapsto> Null]\<rparr>)
       = (Inr Null, exampleStore\<lparr>heap := [], relationshipsDefCache := [''tag'' \<mapsto> Null]\<rparr>)"
proof -
  have legacy: "\<not> CUSTOM_MODEL_CLASS (exampleEnv True False)"
    by (simp add: exampleEnv_def)
  have miss: "relationshipsDefCache exampleStore ''tag'' = None"
    by (simp add: exampleStore_def)
  have cls: "modelFor (exampleEnv True False) (Str ''tag'') exampleStore
       = (Inr (Object 10), exampleStore\<lparr>modelFactoryCache := [''tag'' \<mapsto> 9]\<rparr>)"
    by (simp add: eval_defs)
  have none: "get (exampleEnv True False) (heap (exampleStore\<lparr>modelFactoryCache := [''tag'' \<mapsto> 9]\<rparr>))
         (Object 10) ''relationshipsObject'' = Inr Undefined"
    by (simp add: eval_defs)
  have falsy: "\<not> truthy Undefined"
    by simp
  have entry: "relationshipsDefCache (exampleStore\<lparr>heap := [], relationshipsDefCache := [''tag'' \<mapsto> Null]\<rparr>) ''tag''
      = Some Null"
    by simp
  note none_cached = relationshipsDefinitionFor_none [OF legacy miss cls none falsy legacy entry]
  from none_cached
  have first: "fst (relationshipsDefinitionFor (exampleEnv True False) ''tag'' exampleStore) = Inr Null"
    and stored: "relationshipsDefCache
         (snd (relationshipsDefinitionFor (exampleEnv True False) ''tag'' exampleStore)) ''tag'' = Some Null"
    by simp_all
  from none_cached [THEN conjunct2, THEN conjunct2, THEN conjunct2, THEN conjunct1]
  have again: "fst (relationshipsDefinitionFor (exampleEnv True False) ''tag''
            (snd (relationshipsDefinitionFor (exampleEnv True False) ''tag'' exampleStore))) = Inr Null"
    by (simp only: fst_conv)
  note later = none_cached [THEN conjunct2, THEN conjunct2, THEN conjunct2, THEN conjunct2]
  show ?thesis
    by (intro conjI; (rule legacy miss cls none falsy first stored again later))
qed

text \<open>
  C9, as amended: in legacy mode both caches are keyed by the name as given. For two
  distinct names not yet cached (also two that normalize to the same name),
  \<^verbatim>\<open>_attributesDefinitionFor\<close> and \<^verbatim>\<open>_relationshipsDefinitionFor\<close> each compute and store
  one entry per name. The two attribute mappings returned are different references. Of
  the two relationship results nothing of the kind holds: each is what
  \<^verbatim>\<open>relationshipsObject\<close> of the model class is, or \<^verbatim>\<open>null\<close>.
\<close>

theorem definitions_cached_by_raw_name:
  assumes legacy: "\<not> CUSTOM_MODEL_CLASS env"
      and distinct: "name1 \<noteq> name2"
      and same: "normalizeModelName env (Str name1) = Inr n" "normalizeModelName env (Str name2) = Inr n"
      and amiss: "attributesDefCache s name1 = None" "attributesDefCache s name2 = None"
      and acall1: "attributesDefinitionFor env name1 s = (Inr a1, s1)"
      and acall2: "attributesDefinitionFor env name2 s1 = (Inr a2, s2)"
      and rmiss: "relationshipsDefCache s name1 = None" "relationshipsDefCache s name2 = None"
      and rcall1: "relationshipsDefinitionFor env name1 s = (Inr r1, t1)"
      and rcall2: "relationshipsDefinitionFor env name2 t1 = (Inr r2, t2)"
  shows "a1 \<noteq> a2
       \<and> attributesDefCache s2 name1 = Some a1 \<and> attributesDefCache s2 name2 = Some a2
       \<and> relationshipsDefCache t2 name1 = Some r1 \<and> relationshipsDefCache t2 name2 = Some r2
       \<and> (\<exists>f. modelFactoryCache s2 = (modelFactoryCache s)(n \<mapsto> f))
       \<and> (\<exists>f. modelFactoryCache t2 = (modelFactoryCache s)(n \<mapsto> f))"
proof -
  from attributesDefinitionFor_miss(1) [OF legacy amiss(1) acall1] obtain x1 where
    x1: "a1 = Object x1" "x1 < length (heap s1)"
    and c1: "attributesDefCache s1 = (attributesDefCache s)(name1 \<mapsto> Object x1)"
    by blast
  from c1 distinct amiss(2) have "attributesDefCache s1 name2 = None" by simp
  then have amiss2: "attributesDefCache s1 name2 = None" .
  from attributesDefinitionFor_miss(1) [OF legacy amiss2 acall2] obtain x2 where
    x2: "a2 = Object x2" "length (heap s1) \<le> x2"
    and c2: "attributesDefCache s2 = (attributesDefCache s1)(name2 \<mapsto> Object x2)"
    by blast
  from attributesDefinitionFor_miss(2) [OF legacy amiss(1) acall1 same(1)]
    attributesDefinitionFor_miss(2) [OF legacy amiss2 acall2 same(2)]
  have fa: "\<exists>f. modelFactoryCache s2 = (modelFactoryCache s)(n \<mapsto> f)"
    by auto
  from relationshipsDefinitionFor_miss(1) [OF legacy rmiss(1) rcall1]
  have d1: "relationshipsDefCache t1 = (relationshipsDefCache s)(name1 \<mapsto> r1)" .
  with distinct rmiss(2) have rmiss2: "relationshipsDefCache t1 name2 = None" by simp
  from relationshipsDefinitionFor_miss(1) [OF legacy rmiss2 rcall2]
  have d2: "relationshipsDefCache t2 = (relationshipsDefCache t1)(name2 \<mapsto> r2)" .
  from relationshipsDefinitionFor_miss(2) [OF legacy rmiss(1) rcall1 same(1)]
    relationshipsDefinitionFor_miss(2) [OF legacy rmiss2 rcall2 same(2)]
  have fr: "\<exists>f. modelFactoryCache t2 = (modelFactoryCache s)(n \<mapsto> f)"
    by auto
  from x1 x2 have "a1 \<noteq> a2" by simp
  with x1 x2 c1 c2 d1 d2 distinct fa fr show ?thesis by simp
qed

theorem definitions_cached_by_raw_name_witness:
  "\<not> CUSTOM_MODEL_CLASS (exampleEnv True False)
   \<and> ''Person'' \<noteq> ''person''
   \<and> normalizeModelName (exampleEnv True False) (Str ''Person'') = Inr ''person''
   \<and> normalizeModelName (exampleEnv True False) (Str ''person'') = Inr ''person''
   \<and> attributesDefCache exampleStore ''Person'' = None
   \<and> attributesDefCache exampleStore ''person'' = None
   \<and> fst (attributesDefinitionFor (exampleEnv True False) ''Person'' exampleStore) = Inr (Object 13)
   \<and> fst (attributesDefinitionFor (exampleEnv True False) ''person''
            (snd (attributesDefinitionFor (exampleEnv True False) ''Person'' exampleStore)))
       = Inr (Object 14)
   \<and> Object 13 \<noteq> Object 14
   \<and> attributesDefCache
        (snd (attributesDefinitionFor (exampleEnv True False) ''person''
               (snd (attributesDefinitionFor (exampleEnv True False) ''Person'' exampleStore))))
        ''Person'' = Some (Object 13)
   \<and> attributesDefCache
        (snd (attributesDefinitionFor (exampleEnv True False) ''person''
               (snd (attributesDefinitionFor (exampleEnv True False) ''Person'' exampleStore))))
        ''person'' = Some (Object 14)
   \<and> relationshipsDefCache
        (snd (relationshipsDefinitionFor (exampleEnv True False) ''person''
               (snd (relationshipsDefinitionFor (exampleEnv True False) ''Person'' exampleStore))))
        ''Person'' = Some (Object 6)
   \<and> relationshipsDefCache
        (snd (relationshipsDefinitionFor (exampleEnv True False) ''person''
               (snd (relationshipsDefinitionFor (exampleEnv True False) ''Person'' exampleStore))))
        ''person'' = Some (Object 6)"
proof -
  let ?E = "exampleEnv True False"
  let ?a1 = "attributesDefinitionFor ?E ''Person'' exampleStore"
  let ?a2 = "attributesDefinitionFor ?E ''person'' (snd ?a1)"
  let ?r1 = "relationshipsDefinitionFor ?E ''Person'' exampleStore"
  let ?r2 = "relationshipsDefinitionFor ?E ''person'' (snd ?r1)"
  have legacy: "\<not> CUSTOM_MODEL_CLASS ?E"
    by (simp add: exampleEnv_def)
  have distinct: "''Person'' \<noteq> ''person''"
    by simp
  have same: "normalizeModelName ?E (Str ''Person'') = Inr ''person''"
    "normalizeModelName ?E (Str ''person'') = Inr ''person''"
    by (simp_all add: exampleEnv_def)
  have amiss: "attributesDefCache exampleStore ''Person'' = None"
    "attributesDefCache exampleStore ''person'' = None"
    and rmiss: "relationshipsDefCache exampleStore ''Person'' = None"
    "relationshipsDefCache exampleStore ''person'' = None"
    by (simp_all add: exampleStore_def)
  have a1: "fst ?a1 = Inr (Object 13)"
    by (simp add: eval_defs)
  have a2: "fst ?a2 = Inr (Object 14)"
    by (simp add: eval_defs)
  have r1: "fst ?r1 = Inr (Object 6)"
    by (simp add: eval_defs)
  have r2: "fst ?r2 = Inr (Object 6)"
    by (simp add: eval_defs)
  have acall1: "?a1 = (Inr (Object 13), snd ?a1)"
    using a1 by (metis prod.collapse)
  have acall2: "?a2 = (Inr (Object 14), snd ?a2)"
    using a2 by (metis prod.collapse)
  have rcall1: "?r1 = (Inr (Object 6), snd ?r1)"
    using r1 by (metis prod.collapse)
  have rcall2: "?r2 = (Inr (Object 6), snd ?r2)"
    using r2 by (metis prod.collapse)
  note separate = definitions_cached_by_raw_name
    [OF legacy distinct same amiss acall1 acall2 rmiss rcall1 rcall2]
  show ?thesis
    by (intro conjI;
        (rule legacy distinct same amiss a1 a2 separate [THEN conjunct1]
           separate [THEN conjunct2, THEN conjunct1]
           separate [THEN conjunct2, THEN conjunct2, THEN conjunct1]
           separate [THEN conjunct2, THEN conjunct2, THEN conjunct2, THEN conjunct1]
           separate [THEN conjunct2, THEN conjunct2, THEN conjunct2, THEN conjunct2, THEN conjunct1]))
qed

text \<open>
  The claim C9 as first stated also says that the two relationship results are not the
  same reference. In the example application \<^verbatim>\<open>Person\<close> and \<^verbatim>\<open>person\<close> normalize to the
  same name, the second call finds no entry and computes its own, and both calls return
  the reference to the one relationships object of the class.
\<close>

theorem relationship_results_identical_counterexample:
  "\<not> CUSTOM_MODEL_CLASS (exampleEnv True False)
   \<and> ''Person'' \<noteq> ''person''
   \<and> normalizeModelName (exampleEnv True False) (Str ''Person'')
       = normalizeModelName (exampleEnv True False) (Str ''person'')
   \<and> fst (relationshipsDefinitionFor (exampleEnv True False) ''Person'' exampleStore) = Inr (Object 6)
   \<and> relationshipsDefCache
        (snd (relationshipsDefinitionFor (exampleEnv True False) ''Person'' exampleStore)) ''person'' = None
   \<and> fst (relationshipsDefinitionFor (exampleEnv True False) ''person''
             (snd (relationshipsDefinitionFor (exampleEnv True False) ''Person'' exampleStore)))
       = Inr (Object 6)"
  by (simp add: eval_defs)

subsection \<open>Relationship metadata for one key\<close>




text \<open>
  C10: the result of \<^verbatim>\<open>_relationshipMetaFor(modelName, id, key)\<close>, and the state it leaves
  the store in, do not depend on the argument \<^verbatim>\<open>id\<close>, in both modes.
\<close>

theorem relationshipMetaFor_ignores_id:
  "relationshipMetaFor env modelName ident k s = relationshipMetaFor env modelName ident' k s"
  by (simp add: relationshipMetaFor_def)

subsection \<open>The arguments of a new record\<close>

text \<open>
  C5: \<^verbatim>\<open>instantiateRecord\<close> calls \<^verbatim>\<open>create\<close> of the resolved factory with these options: the
  store, the internal model, its current state and an empty \<^verbatim>\<open>container\<close>, overridden by
  the caller's arguments, then the store's owner set with \<^verbatim>\<open>setOwner\<close>, then \<^verbatim>\<open>container\<close>
  deleted. So the options have no \<^verbatim>\<open>container\<close>, their owner is the store's, every other
  argument of the caller is there with the caller's value, and a key the caller did not
  give has the store's value.
\<close>

theorem instantiateRecord_createOptions:
  assumes im: "internalModelForResource env identifier s = (Inr internalModel, s1)"
      and st: "index (heap s1) internalModel (Name ''currentState'') = Inr currentState"
      and fac: "modelFactoryFor env (Str (identifier_type identifier)) s1 = (Inr (Object f), s2)"
  shows
    "let createOptions =
           (([Name ''store'' \<mapsto> StoreRef, Name ''_internalModel'' \<mapsto> internalModel,
              Name ''currentState'' \<mapsto> currentState, Name ''container'' \<mapsto> Null]
             ++ (createRecordArgs |` (- {Name ''__proto__''})))
            (OWNER \<mapsto> owner s1))
           (Name ''container'' := None)
     in instantiateRecord env identifier createRecordArgs s
          = andThen (create env f createOptions) (\<lambda>record.
              andThen (subscribe env identifier record) (\<lambda>_. succeed record)) s2
      \<and> createOptions (Name ''container'') = None
      \<and> createOptions OWNER = Some (owner s1)
      \<and> (\<forall>k v. createRecordArgs k = Some v \<longrightarrow> k \<notin> {Name ''container'', Name ''__proto__'', OWNER}
             \<longrightarrow> createOptions k = Some v)
      \<and> (createRecordArgs (Name ''store'') = None \<longrightarrow> createOptions (Name ''store'') = Some StoreRef)
      \<and> (createRecordArgs (Name ''_internalModel'') = None
             \<longrightarrow> createOptions (Name ''_internalModel'') = Some internalModel)
      \<and> (createRecordArgs (Name ''currentState'') = None
             \<longrightarrow> createOptions (Name ''currentState'') = Some currentState)"
proof -
  have call: "instantiateRecord env identifier createRecordArgs s
          = andThen (create env f
              ((([Name ''store'' \<mapsto> StoreRef, Name ''_internalModel'' \<mapsto> internalModel,
              Name ''currentState'' \<mapsto> currentState, Name ''container'' \<mapsto> Null]
             ++ (createRecordArgs |` (- {Name ''__proto__''})))
            (OWNER \<mapsto> owner s1))
           (Name ''container'' := None))) (\<lambda>record.
              andThen (subscribe env identifier record) (\<lambda>_. succeed record)) s2"
    using im st fac
    by (simp add: instantiateRecord_def Let_def andThen_def lift_def assign_def setOwner_def getOwner_def)
  show ?thesis
    unfolding Let_def
    by (intro conjI call) (auto simp add: map_add_def restrict_map_def split: option.splits)
qed

theorem instantiateRecord_createOptions_witness:
  "internalModelForResource (exampleEnv True False)
       \<lparr>identifier_type = ''person'', identifier_id = Some ''1''\<rparr> exampleStore
     = (Inr (Object 4), exampleStore)
   \<and> index (heap exampleStore) (Object 4) (Name ''currentState'') = Inr (Str ''root.empty'')
   \<and> modelFactoryFor (exampleEnv True False) (Str ''person'') exampleStore
     = (Inr (Object 0), exampleStore\<lparr>modelFactoryCache := [''person'' \<mapsto> 0]\<rparr>)
   \<and> fst (instantiateRecord (exampleEnv True False)
            \<lparr>identifier_type = ''person'', identifier_id = Some ''1''\<rparr>
            [Name ''name'' \<mapsto> Str ''Tom'', Name ''store'' \<mapsto> Null, Name ''container'' \<mapsto> Str ''c'']
            exampleStore)
     = Inr (Object 13)
   \<and> deref (heap (snd (instantiateRecord (exampleEnv True False)
            \<lparr>identifier_type = ''person'', identifier_id = Some ''1''\<rparr>
            [Name ''name'' \<mapsto> Str ''Tom'', Name ''store'' \<mapsto> Null, Name ''container'' \<mapsto> Str ''c'']
            exampleStore))) 13
     = Some (JSObject
         [Name ''_internalModel'' \<mapsto> Object 4, Name ''currentState'' \<mapsto> Str ''root.empty'',
          Name ''name'' \<mapsto> Str ''Tom'', Name ''store'' \<mapsto> Null, OWNER \<mapsto> Object 12])"
proof -
  let ?E = "exampleEnv True False"
  let ?i = "\<lparr>identifier_type = ''person'', identifier_id = Some ''1''\<rparr>"
  let ?args = "[Name ''name'' \<mapsto> Str ''Tom'', Name ''store'' \<mapsto> Null, Name ''container'' \<mapsto> Str ''c'']"
  have im: "internalModelForResource ?E ?i exampleStore = (Inr (Object 4), exampleStore)"
    by (simp add: exampleEnv_def succeed_def)
  have st: "index (heap exampleStore) (Object 4) (Name ''currentState'') = Inr (Str ''root.empty'')"
    by (simp add: eval_defs)
  have fac: "modelFactoryFor ?E (Str ''person'') exampleStore
     = (Inr (Object 0), exampleStore\<lparr>modelFactoryCache := [''person'' \<mapsto> 0]\<rparr>)"
    by (simp add: eval_defs)
  have fac': "modelFactoryFor ?E (Str (identifier_type ?i)) exampleStore
     = (Inr (Object 0), exampleStore\<lparr>modelFactoryCache := [''person'' \<mapsto> 0]\<rparr>)"
    using fac by simp
  note opts = instantiateRecord_createOptions [OF im st fac', of ?args, unfolded Let_def, THEN conjunct1]
  have options: "(([Name ''store'' \<mapsto> StoreRef, Name ''_internalModel'' \<mapsto> Object 4,
              Name ''currentState'' \<mapsto> Str ''root.empty'', Name ''container'' \<mapsto> Null]
             ++ (?args |` (- {Name ''__proto__''})))
            (OWNER \<mapsto> owner exampleStore))
           (Name ''container'' := None)
        = [Name ''_internalModel'' \<mapsto> Object 4, Name ''currentState'' \<mapsto> Str ''root.empty'',
          Name ''name'' \<mapsto> Str ''Tom'', Name ''store'' \<mapsto> Null, OWNER \<mapsto> Object 12]"
    by (auto simp add: fun_eq_iff map_add_def restrict_map_def exampleStore_def split: option.splits)
  have result: "fst (instantiateRecord ?E ?i ?args exampleStore) = Inr (Object 13)"
    unfolding opts options
    by (simp add: eval_defs)
  have built: "deref (heap (snd (instantiateRecord ?E ?i ?args exampleStore))) 13
     = Some (JSObject
         [Name ''_internalModel'' \<mapsto> Object 4, Name ''currentState'' \<mapsto> Str ''root.empty'',
          Name ''name'' \<mapsto> Str ''Tom'', Name ''store'' \<mapsto> Null, OWNER \<mapsto> Object 12])"
    unfolding opts options
    by (simp add: eval_defs)
  show ?thesis
    by (intro conjI; (rule im st fac result built))
qed

subsection \<open>The lifecycle guards\<close>

text \<open>
  C3, as amended: in a debug build, a guard called in a state it does not allow gives a
  deprecation warning and lets the call go on when
  \<^verbatim>\<open>shouldAssertMethodCallsOnDestroyedStore\<close> is unset or falsy, and throws an error whose
  message names the method when the flag is set; in an allowed state it does nothing. The
  two guards are the same but for the states they refuse: \<^verbatim>\<open>assertDestroyingStore\<close> refuses
  a store that is destroying or destroyed, \<^verbatim>\<open>assertDestroyedStoreOnly\<close> a destroyed one
  only. For the guarded methods: with the flag set, \<^verbatim>\<open>modelFor\<close> and \<^verbatim>\<open>_modelFactoryFor\<close> on a
  destroyed store and \<^verbatim>\<open>_hasModelFor\<close> on a destroying or destroyed one throw the error with
  their own name and change nothing. Without the flag each of them warns with its own
  name and goes on: \<^verbatim>\<open>_modelFactoryFor\<close> and \<^verbatim>\<open>modelFor\<close> return what they return on a store
  that is not destroyed (\<^verbatim>\<open>modelFor\<close> also gives the warning of the \<^verbatim>\<open>_modelFactoryFor\<close> it
  calls), and so does \<^verbatim>\<open>_hasModelFor\<close>, which with \<^verbatim>\<open>CUSTOM_MODEL_CLASS\<close> on hands a valid name
  to the schema definition service.
\<close>

theorem lifecycle_guard_modes:
  assumes "DEBUG env"
  shows "assertDestroyingStore env method s =
      (if \<not> (isDestroying s \<or> isDestroyed s) then (Inr (), s)
       else if truthy (shouldAssertMethodCallsOnDestroyedStore s)
       then (Inl (AssertionFailed
                   (''Attempted to call store.'' @ method @ ''(), but the store instance has already been destroyed.'')), s)
       else (Inr (), s\<lparr>warnings := warnings s @
                [Deprecate (''Attempted to call store.'' @ method @ ''(), but the store instance has already been destroyed.'')
                   ''ember-data:method-calls-on-destroyed-store'' ''3.8'']\<rparr>))
   \<and> assertDestroyedStoreOnly env method s =
      (if \<not> isDestroyed s then (Inr (), s)
       else if truthy (shouldAssertMethodCallsOnDestroyedStore s)
       then (Inl (AssertionFailed
                   (''Attempted to call store.'' @ method @ ''(), but the store instance has already been destroyed.'')), s)
       else (Inr (), s\<lparr>warnings := warnings s @
                [Deprecate (''Attempted to call store.'' @ method @ ''(), but the store instance has already been destroyed.'')
                   ''ember-data:method-calls-on-destroyed-store'' ''3.8'']\<rparr>))
   \<and> (truthy (shouldAssertMethodCallsOnDestroyedStore s) \<and> isDestroyed s \<longrightarrow>
        modelFor env m s
          = (Inl (AssertionFailed
                    ''Attempted to call store.modelFor(), but the store instance has already been destroyed.''), s)
        \<and> modelFactoryFor env m s
          = (Inl (AssertionFailed
                    ''Attempted to call store._modelFactoryFor(), but the store instance has already been destroyed.''), s))
   \<and> (truthy (shouldAssertMethodCallsOnDestroyedStore s) \<and> (isDestroying s \<or> isDestroyed s) \<longrightarrow>
        hasModelFor env m s
          = (Inl (AssertionFailed
                    ''Attempted to call store._hasModelFor(), but the store instance has already been destroyed.''), s))
   \<and> (\<not> truthy (shouldAssertMethodCallsOnDestroyedStore s) \<and> isDestroyed s \<longrightarrow>
        fst (modelFactoryFor env m s) = fst (modelFactoryFor env m (s\<lparr>isDestroyed := False\<rparr>))
        \<and> warnings (snd (modelFactoryFor env m s))
          = warnings s @
            [Deprecate ''Attempted to call store._modelFactoryFor(), but the store instance has already been destroyed.''
               ''ember-data:method-calls-on-destroyed-store'' ''3.8'']
        \<and> fst (modelFor env m s) = fst (modelFor env m (s\<lparr>isDestroyed := False\<rparr>))
        \<and> warnings (snd (modelFor env m s))
          = warnings s @
            Deprecate ''Attempted to call store.modelFor(), but the store instance has already been destroyed.''
              ''ember-data:method-calls-on-destroyed-store'' ''3.8''
            # (if isPresent env m \<and> typeof m = ''string''
               then [Deprecate ''Attempted to call store._modelFactoryFor(), but the store instance has already been destroyed.''
                       ''ember-data:method-calls-on-destroyed-store'' ''3.8'']
               else []))
   \<and> (\<not> truthy (shouldAssertMethodCallsOnDestroyedStore s) \<and> (isDestroying s \<or> isDestroyed s)
        \<and> \<not> CUSTOM_MODEL_CLASS env \<longrightarrow>
        fst (hasModelFor env m s)
          = fst (hasModelFor env m (s\<lparr>isDestroying := False, isDestroyed := False\<rparr>))
        \<and> warnings (snd (hasModelFor env m s))
          = warnings s @
            [Deprecate ''Attempted to call store._hasModelFor(), but the store instance has already been destroyed.''
               ''ember-data:method-calls-on-destroyed-store'' ''3.8''])
   \<and> (\<not> truthy (shouldAssertMethodCallsOnDestroyedStore s) \<and> (isDestroying s \<or> isDestroyed s)
        \<and> CUSTOM_MODEL_CLASS env \<and> isPresent env m \<and> typeof m = ''string'' \<longrightarrow>
        hasModelFor env m s
          = andThen (getSchemaDefinitionService env) (\<lambda>service. service_doesTypeExist env service m)
              (s\<lparr>warnings := warnings s @
                 [Deprecate ''Attempted to call store._hasModelFor(), but the store instance has already been destroyed.''
                    ''ember-data:method-calls-on-destroyed-store'' ''3.8'']\<rparr>))"
proof (intro conjI impI; (elim conjE)?)
  show "assertDestroyingStore env method s =
      (if \<not> (isDestroying s \<or> isDestroyed s) then (Inr (), s)
       else if truthy (shouldAssertMethodCallsOnDestroyedStore s)
       then (Inl (AssertionFailed
                   (''Attempted to call store.'' @ method @ ''(), but the store instance has already been destroyed.'')), s)
       else (Inr (), s\<lparr>warnings := warnings s @
                [Deprecate (''Attempted to call store.'' @ method @ ''(), but the store instance has already been destroyed.'')
                   ''ember-data:method-calls-on-destroyed-store'' ''3.8'']\<rparr>))"
    using assms by (simp add: assertDestroyingStore_def deprecate_def assert_def throw_def succeed_def)
  show "assertDestroyedStoreOnly env method s =
      (if \<not> isDestroyed s then (Inr (), s)
       else if truthy (shouldAssertMethodCallsOnDestroyedStore s)
       then (Inl (AssertionFailed
                   (''Attempted to call store.'' @ method @ ''(), but the store instance has already been destroyed.'')), s)
       else (Inr (), s\<lparr>warnings := warnings s @
                [Deprecate (''Attempted to call store.'' @ method @ ''(), but the store instance has already been destroyed.'')
                   ''ember-data:method-calls-on-destroyed-store'' ''3.8'']\<rparr>))"
    using assms by (simp add: assertDestroyedStoreOnly_def deprecate_def assert_def throw_def succeed_def)
next
  assume strict: "truthy (shouldAssertMethodCallsOnDestroyedStore s)" and gone: "isDestroyed s"
  from guard_strict_operations(1) [OF assms strict, of m] gone
  show "modelFor env m s
          = (Inl (AssertionFailed
                    ''Attempted to call store.modelFor(), but the store instance has already been destroyed.''), s)"
    and "modelFactoryFor env m s
          = (Inl (AssertionFailed
                    ''Attempted to call store._modelFactoryFor(), but the store instance has already been destroyed.''), s)"
    by simp_all
next
  assume strict: "truthy (shouldAssertMethodCallsOnDestroyedStore s)" and going: "isDestroying s \<or> isDestroyed s"
  from guard_strict_operations(2) [OF assms strict, of m] going
  show "hasModelFor env m s
          = (Inl (AssertionFailed
                    ''Attempted to call store._hasModelFor(), but the store instance has already been destroyed.''), s)"
    by simp
next
  assume lenient: "\<not> truthy (shouldAssertMethodCallsOnDestroyedStore s)" and gone: "isDestroyed s"
  from guard_warning_operations [OF assms lenient gone, of m]
  show "fst (modelFactoryFor env m s) = fst (modelFactoryFor env m (s\<lparr>isDestroyed := False\<rparr>))"
    and "warnings (snd (modelFactoryFor env m s))
          = warnings s @
            [Deprecate ''Attempted to call store._modelFactoryFor(), but the store instance has already been destroyed.''
               ''ember-data:method-calls-on-destroyed-store'' ''3.8'']"
    by simp_all
  from guard_warning_modelFor [OF assms lenient gone, of m]
  show "fst (modelFor env m s) = fst (modelFor env m (s\<lparr>isDestroyed := False\<rparr>))"
    and "warnings (snd (modelFor env m s))
          = warnings s @
            Deprecate ''Attempted to call store.modelFor(), but the store instance has already been destroyed.''
              ''ember-data:method-calls-on-destroyed-store'' ''3.8''
            # (if isPresent env m \<and> typeof m = ''string''
               then [Deprecate ''Attempted to call store._modelFactoryFor(), but the store instance has already been destroyed.''
                       ''ember-data:method-calls-on-destroyed-store'' ''3.8'']
               else [])"
    by simp_all
next
  assume lenient: "\<not> truthy (shouldAssertMethodCallsOnDestroyedStore s)"
    and going: "isDestroying s \<or> isDestroyed s" and legacy: "\<not> CUSTOM_MODEL_CLASS env"
  from guard_warning_hasModelFor(1) [OF assms lenient going legacy, of m]
  show "fst (hasModelFor env m s)
          = fst (hasModelFor env m (s\<lparr>isDestroying := False, isDestroyed := False\<rparr>))"
    and "warnings (snd (hasModelFor env m s))
          = warnings s @
            [Deprecate ''Attempted to call store._hasModelFor(), but the store instance has already been destroyed.''
               ''ember-data:method-calls-on-destroyed-store'' ''3.8'']"
    by simp_all
next
  assume lenient: "\<not> truthy (shouldAssertMethodCallsOnDestroyedStore s)"
    and going: "isDestroying s \<or> isDestroyed s" and custom: "CUSTOM_MODEL_CLASS env"
    and valid: "isPresent env m" "typeof m = ''string''"
  from guard_warning_hasModelFor(2) [OF assms lenient going custom valid]
  show "hasModelFor env m s
          = andThen (getSchemaDefinitionService env) (\<lambda>service. service_doesTypeExist env service m)
              (s\<lparr>warnings := warnings s @
                 [Deprecate ''Attempted to call store._hasModelFor(), but the store instance has already been destroyed.''
                    ''ember-data:method-calls-on-destroyed-store'' ''3.8'']\<rparr>)" .
qed

theorem lifecycle_guard_modes_witness:
  "DEBUG (exampleEnv True False)
   \<and> assertDestroyedStoreOnly (exampleEnv True False) ''modelFor'' (exampleStore\<lparr>isDestroyed := True\<rparr>)
       = (Inr (), exampleStore\<lparr>isDestroyed := True, warnings :=
            [Deprecate ''Attempted to call store.modelFor(), but the store instance has already been destroyed.''
               ''ember-data:method-calls-on-destroyed-store'' ''3.8'']\<rparr>)
   \<and> assertDestroyedStoreOnly (exampleEnv True False) ''modelFor''
         (exampleStore\<lparr>isDestroyed := True, shouldAssertMethodCallsOnDestroyedStore := Boolean True\<rparr>)
       = (Inl (AssertionFailed
                 ''Attempted to call store.modelFor(), but the store instance has already been destroyed.''),
          exampleStore\<lparr>isDestroyed := True, shouldAssertMethodCallsOnDestroyedStore := Boolean True\<rparr>)
   \<and> assertDestroyedStoreOnly (exampleEnv True False) ''modelFor'' (exampleStore\<lparr>isDestroying := True\<rparr>)
       = (Inr (), exampleStore\<lparr>isDestroying := True\<rparr>)
   \<and> assertDestroyingStore (exampleEnv True False) ''_hasModelFor''
         (exampleStore\<lparr>isDestroying := True, shouldAssertMethodCallsOnDestroyedStore := Boolean True\<rparr>)
       = (Inl (AssertionFailed
                 ''Attempted to call store._hasModelFor(), but the store instance has already been destroyed.''),
          exampleStore\<lparr>isDestroying := True, shouldAssertMethodCallsOnDestroyedStore := Boolean True\<rparr>)
   \<and> fst (modelFor (exampleEnv True False) (Str ''person'')
            (exampleStore\<lparr>isDestroyed := True, shouldAssertMethodCallsOnDestroyedStore := Boolean True\<rparr>))
       = Inl (AssertionFailed
                ''Attempted to call store.modelFor(), but the store instance has already been destroyed.'')
   \<and> fst (hasModelFor (exampleEnv True False) (Str ''person'')
            (exampleStore\<lparr>isDestroying := True, shouldAssertMethodCallsOnDestroyedStore := Boolean True\<rparr>))
       = Inl (AssertionFailed
                ''Attempted to call store._hasModelFor(), but the store instance has already been destroyed.'')
   \<and> fst (modelFactoryFor (exampleEnv True False) (Str ''person'') (exampleStore\<lparr>isDestroyed := True\<rparr>))
       = Inr (Object 0)
   \<and> warnings (snd (modelFactoryFor (exampleEnv True False) (Str ''person'')
                      (exampleStore\<lparr>isDestroyed := True\<rparr>)))
       = [Deprecate ''Attempted to call store._modelFactoryFor(), but the store instance has already been destroyed.''
            ''ember-data:method-calls-on-destroyed-store'' ''3.8'']
   \<and> fst (modelFor (exampleEnv True False) (Str ''person'') (exampleStore\<lparr>isDestroyed := True\<rparr>))
       = Inr (Object 1)
   \<and> warnings (snd (modelFor (exampleEnv True False) (Str ''person'')
                      (exampleStore\<lparr>isDestroyed := True\<rparr>)))
       = [Deprecate ''Attempted to call store.modelFor(), but the store instance has already been destroyed.''
            ''ember-data:method-calls-on-destroyed-store'' ''3.8'',
          Deprecate ''Attempted to call store._modelFactoryFor(), but the store instance has already been destroyed.''
            ''ember-data:method-calls-on-destroyed-store'' ''3.8'']
   \<and> fst (hasModelFor (exampleEnv True False) (Str ''person'') (exampleStore\<lparr>isDestroying := True\<rparr>))
       = Inr (Boolean True)
   \<and> warnings (snd (hasModelFor (exampleEnv True False) (Str ''person'')
                      (exampleStore\<lparr>isDestroying := True\<rparr>)))
       = [Deprecate ''Attempted to call store._hasModelFor(), but the store instance has already been destroyed.''
            ''ember-data:method-calls-on-destroyed-store'' ''3.8'']"
proof -
  have debug: "DEBUG (exampleEnv True False)"
    by (simp add: exampleEnv_def)
  have live: "fst (modelFactoryFor (exampleEnv True False) (Str ''person'') exampleStore) = Inr (Object 0)"
    "fst (modelFor (exampleEnv True False) (Str ''person'') exampleStore) = Inr (Object 1)"
    "fst (hasModelFor (exampleEnv True False) (Str ''person'') exampleStore) = Inr (Boolean True)"
    by (simp_all add: eval_defs hasModelFor_def)
  have legacy: "\<not> CUSTOM_MODEL_CLASS (exampleEnv True False)"
    and present: "isPresent (exampleEnv True False) (Str ''person'')"
    by (simp_all add: exampleEnv_def)
  show ?thesis
    using debug live legacy present
      lifecycle_guard_modes [OF debug, of "''modelFor''" "exampleStore\<lparr>isDestroyed := True\<rparr>"
        "Str ''person''"]
      lifecycle_guard_modes [OF debug, of "''modelFor''"
        "exampleStore\<lparr>isDestroyed := True, shouldAssertMethodCallsOnDestroyedStore := Boolean True\<rparr>"
        "Str ''person''"]
      lifecycle_guard_modes [OF debug, of "''modelFor''" "exampleStore\<lparr>isDestroying := True\<rparr>"
        "Str ''person''"]
      lifecycle_guard_modes [OF debug, of "''_hasModelFor''"
        "exampleStore\<lparr>isDestroying := True, shouldAssertMethodCallsOnDestroyedStore := Boolean True\<rparr>"
        "Str ''person''"]
    by (simp add: exampleStore_def)
qed

text \<open>
  The claim C3 as first stated has no condition on the build. The guards are defined and
  called under \<^verbatim>\<open>if (DEBUG)\<close> only: in a production build \<^verbatim>\<open>modelFor\<close> on a destroyed store with
  the strict flag returns the class, and \<^verbatim>\<open>_modelFactoryFor\<close> on a destroyed store without
  the flag gives no warning.
\<close>

theorem lifecycle_guard_production_counterexample:
  "\<not> DEBUG (exampleEnv False False)
   \<and> truthy (shouldAssertMethodCallsOnDestroyedStore
        (exampleStore\<lparr>isDestroyed := True, shouldAssertMethodCallsOnDestroyedStore := Boolean True\<rparr>))
   \<and> isDestroyed (exampleStore\<lparr>isDestroyed := True, shouldAssertMethodCallsOnDestroyedStore := Boolean True\<rparr>)
   \<and> modelFor (exampleEnv False False) (Str ''person'')
        (exampleStore\<lparr>isDestroyed := True, shouldAssertMethodCallsOnDestroyedStore := Boolean True\<rparr>)
       = (Inr (Object 1),
          exampleStore\<lparr>isDestroyed := True, shouldAssertMethodCallsOnDestroyedStore := Boolean True,
            modelFactoryCache := [''person'' \<mapsto> 0]\<rparr>)
   \<and> modelFactoryFor (exampleEnv False False) (Str ''person'') (exampleStore\<lparr>isDestroyed := True\<rparr>)
       = (Inr (Object 0), exampleStore\<lparr>isDestroyed := True, modelFactoryCache := [''person'' \<mapsto> 0]\<rparr>)
   \<and> warnings (exampleStore\<lparr>isDestroyed := True, modelFactoryCache := [''person'' \<mapsto> 0]\<rparr>) = []"
  by (simp add: eval_defs)

end
